theory Spec2Isabelle
  imports Main "HOL-Library.AList"
begin

section \<open>Go types and values as reflection sees them\<close>

text \<open>
  decode.go inspects its destination through package reflect. A destination is described
  here by its type (\<open>gotype\<close>) and its current contents (\<open>govalue\<close>).
  The integer kinds carry their width; Go's \<open>int\<close> and \<open>uint\<close> (\<open>Native\<close>) are taken
  as 64 bits wide, as on the common 64-bit platforms.
\<close>

datatype isize = Native | B8 | B16 | B32 | B64

datatype fsize = F32 | F64

fun bits :: "isize \<Rightarrow> nat" where
  "bits Native = 64"
| "bits B8 = 8"
| "bits B16 = 16"
| "bits B32 = 32"
| "bits B64 = 64"

text \<open>
  Modelled from the spec: how \<open>newTag\<close> reads the text of a struct tag is not among the
  sources. By section 3 of the specification a field declares an optional override name
  and an optional-field marker, and a struct tag is kept here in that form.
\<close>

datatype structTag = StructTag (override: "string option") (omitempty: bool)

datatype gotype =
    TBool
  | TInt isize
  | TUint isize
  | TFloat fsize
  | TString
  | TSlice gotype
  | TMap gotype gotype
  | TStruct "structField list"
  | TPtr gotype
  | TOther
and structField =
  StructField (sf_Name: string) (sf_PkgPath: string) (sf_Tag: structTag) (sf_Type: gotype)

text \<open>
  \<open>reflect.Kind\<close>. Every switch of decode.go puts Int, Int8, Int16, Int32, Int64 in one
  case, and likewise the unsigned and the floating-point kinds, so one kind stands for
  each group. \<open>TOther\<close> (kind \<open>KOther\<close>) stands for the types no case names: arrays,
  channels, functions, complex numbers.
\<close>

datatype kind = KBool | KInt | KUint | KFloat | KString | KSlice | KMap | KStruct | KPtr | KOther

fun Kind :: "gotype \<Rightarrow> kind" where
  "Kind TBool = KBool"
| "Kind (TInt _) = KInt"
| "Kind (TUint _) = KUint"
| "Kind (TFloat _) = KFloat"
| "Kind TString = KString"
| "Kind (TSlice _) = KSlice"
| "Kind (TMap _ _) = KMap"
| "Kind (TStruct _) = KStruct"
| "Kind (TPtr _) = KPtr"
| "Kind TOther = KOther"

text \<open>
  Values. \<open>VNil\<close> is the nil slice, the nil map and the nil pointer, which Go tells
  apart from an empty slice or map. A map keeps its entries as an association list with
  string keys. Floating-point numbers are values of a type \<open>'f\<close> that the development
  does not look into.
\<close>

datatype 'f govalue =
    VBool bool
  | VInt int
  | VUint nat
  | VFloat 'f
  | VString string
  | VNil
  | VSlice "'f govalue list"
  | VMap "(string \<times> 'f govalue) list"
  | VStruct "'f govalue list"
  | VPtr "'f govalue"
  | VOther

text \<open>The zero value of a type, as \<open>reflect.New\<close> and \<open>reflect.MakeSlice\<close> create it.\<close>

primrec zero :: "gotype \<Rightarrow> ('f::zero) govalue"
  and zeroField :: "structField \<Rightarrow> ('f::zero) govalue" where
  "zero TBool = VBool False"
| "zero (TInt w) = VInt 0"
| "zero (TUint w) = VUint 0"
| "zero (TFloat w) = VFloat 0"
| "zero TString = VString []"
| "zero (TSlice E) = VNil"
| "zero (TMap K E) = VNil"
| "zero (TStruct fs) = VStruct (map zeroField fs)"
| "zero (TPtr E) = VNil"
| "zero TOther = VOther"
| "zeroField (StructField n pk t T) = zero T"

text \<open>
  \<open>reflect.StructField\<close> has the field \<open>PkgPath\<close>, the package path that qualifies
  an unexported name, and \<open>IsExported\<close> reports whether it is empty. Go leaves it empty
  for the names that begin with an upper-case letter, of any alphabet, and for those only.
  A \<open>reflect.Value\<close> reached through an unexported field is read-only: every setter
  panics on it.
\<close>

definition IsExported :: "structField \<Rightarrow> bool" where
  "IsExported f = (sf_PkgPath f = [])"

section \<open>The parse tree\<close>

text \<open>
  The parse tree, its sections and its properties are declared in a file of the repository
  that is not among the sources; section 3 of the specification gives their shape.
\<close>

text \<open>
  Modelled from the spec: the type \<open>property\<close> is not among the sources. By section 3 a
  property maps a map-key (the empty string for a plain key) to the sequence of raw values
  collected for it, in source order.
\<close>

record property =
  vals :: "(string \<times> string list) list"

text \<open>
  Modelled from the spec: the type \<open>section\<close> is not among the sources. By section 3 a
  section has a name, the text of its header (empty for the global section), and its
  properties by key, in insertion order.
\<close>

record ini_section =
  name :: string
  props :: "(string \<times> property) list"

text \<open>
  Modelled from the spec: the type \<open>parseTree\<close> is not among the sources. By sections 2
  and 3 the tree has the global section and the named sections in source order; sections
  of the same name are kept as several instances.
\<close>

record parseTree =
  global :: ini_section
  sections :: "ini_section list"

section \<open>Errors\<close>

text \<open>
  \<open>UnmarshalTypeError\<close> of decode.go, with its fields \<open>val\<close>, \<open>typ\<close>, \<open>str\<close> and
  \<open>fld\<close>. The decoder never assigns \<open>str\<close> and \<open>fld\<close>, so they keep Go's zero
  value, the empty string.
\<close>

record unmarshalTypeError =
  err_val :: string
  err_typ :: gotype
  err_str :: string
  err_fld :: string

text \<open>
  What a call can end with besides success: an UnmarshalTypeError returned to the caller,
  the error of the parser, which unmarshal hands on, or a run-time panic raised by reflect
  or by an index out of range.
\<close>

datatype failure = Error unmarshalTypeError | ParseError | Panic

definition typeError :: "string \<Rightarrow> gotype \<Rightarrow> failure" where
  "typeError v t = Error \<lparr>err_val = v, err_typ = t, err_str = [], err_fld = []\<rparr>"

text \<open>
  A decoder mutates its destination and returns an error or nil: the model returns the
  destination's contents after the call together with the failure, if any.
\<close>

type_synonym 'a result = "'a \<times> failure option"

text \<open>
  The values decode.go passes around as \<open>interface{}\<close>: a raw string, a sequence of raw
  strings, a section, a sequence of sections, a property.
\<close>

datatype raw =
    RString string
  | RStrings "string list"
  | RSection ini_section
  | RSections "ini_section list"
  | RProperty property

text \<open>\<open>reflect.TypeOf(i).Kind()\<close> of such a value.\<close>

fun rawKind :: "raw \<Rightarrow> kind" where
  "rawKind (RString _) = KString"
| "rawKind (RStrings _) = KSlice"
| "rawKind (RSection _) = KStruct"
| "rawKind (RSections _) = KSlice"
| "rawKind (RProperty _) = KStruct"

text \<open>
  \<open>reflect.ValueOf(i).String()\<close>: the string itself for a string, and the type between
  angle brackets for anything else.
\<close>

fun ValueString :: "raw \<Rightarrow> string" where
  "ValueString (RString s) = s"
| "ValueString (RStrings _) = ''<[]string Value>''"
| "ValueString (RSection _) = ''<ini.section Value>''"
| "ValueString (RSections _) = ''<[]ini.section Value>''"
| "ValueString (RProperty _) = ''<ini.property Value>''"

section \<open>Lookups\<close>

text \<open>
  The three lookups \<open>tree.get\<close>, \<open>s.get\<close> and \<open>prop.get\<close> are methods of the parse
  tree that are not among the sources. By section 3 of the specification a lookup never
  changes the tree, and a lookup that finds nothing returns an empty result, not an error.
\<close>

text \<open>
  Modelled from the spec: \<open>prop.get\<close> is not among the sources. It gives the sequence of
  raw values under a map-key, empty when the property has none.
\<close>

definition property_get :: "property \<Rightarrow> string \<Rightarrow> string list" where
  "property_get p k = (case map_of (vals p) k of None \<Rightarrow> [] | Some vs \<Rightarrow> vs)"

text \<open>
  Modelled from the spec: \<open>s.get\<close> is not among the sources. It gives the property of a
  key, a property without values when the section has none, and no error.
\<close>

definition section_get :: "ini_section \<Rightarrow> string \<Rightarrow> failure + property" where
  "section_get s k =
     Inr (case map_of (props s) k of None \<Rightarrow> \<lparr>vals = []\<rparr> | Some p \<Rightarrow> p)"

text \<open>
  Modelled from the spec: \<open>tree.get\<close> is not among the sources. It gives the section
  instances of a name in source order, none when the tree has none, and no error; by
  sections 3 and 4.2 the wildcard name \<open>*\<close> stands for every section of the tree in
  tree order.
\<close>

definition parseTree_get :: "parseTree \<Rightarrow> string \<Rightarrow> failure + ini_section list" where
  "parseTree_get t n =
     Inr (if n = ''*'' then sections t else filter (\<lambda>s. name s = n) (sections t))"

text \<open>
  Modelled from the spec: the type \<open>tag\<close> is not among the sources. decode.go reads its
  field \<open>name\<close> (here \<open>tag_name\<close>); the optional-field marker is the other thing section
  3 says a field declares.
\<close>

record tag =
  tag_name :: string
  tag_omitempty :: bool

text \<open>
  Modelled from the spec: \<open>newTag\<close> is not among the sources. By section 4.1 of the
  specification the effective name of a field is its explicit override when there is one
  and its declared name otherwise.
\<close>

definition newTag :: "structField \<Rightarrow> tag" where
  "newTag sf =
     \<lparr>tag_name = (case override (sf_Tag sf) of None \<Rightarrow> sf_Name sf | Some n \<Rightarrow> n),
      tag_omitempty = omitempty (sf_Tag sf)\<rparr>"

section \<open>strconv\<close>

text \<open>
  \<open>strconv.ParseUint(s, 10, 64)\<close>: a non-empty run of decimal digits whose value fits 64
  bits. The loop reads the digits from the left and gives up at the first character that
  is not a digit and as soon as the value passes \<open>2^64 - 1\<close>.
\<close>

definition isDigit :: "char \<Rightarrow> bool" where
  "isDigit c = (48 \<le> (of_char c :: nat) \<and> (of_char c :: nat) \<le> 57)"

definition maxUint64 :: nat where
  "maxUint64 = 2 ^ 64 - 1"

fun parseDigits :: "nat \<Rightarrow> string \<Rightarrow> nat option" where
  "parseDigits n [] = Some n"
| "parseDigits n (c # cs) =
     (if isDigit c
      then (let n1 = n * 10 + (of_char c - 48)
            in if n1 > maxUint64 then None else parseDigits n1 cs)
      else None)"

definition ParseUint :: "string \<Rightarrow> nat option" where
  "ParseUint s = (if s = [] then None else parseDigits 0 s)"

text \<open>
  \<open>strconv.ParseInt(s, 10, 64)\<close>: an optional sign, then the digits as for ParseUint;
  the magnitude must stay below \<open>2^63\<close>, or be at most \<open>2^63\<close> after a minus sign.
\<close>

definition ParseInt :: "string \<Rightarrow> int option" where
  "ParseInt s =
     (case s of
        [] \<Rightarrow> None
      | c # cs \<Rightarrow>
          (let neg = (c = CHR ''-'');
               s' = (if c = CHR ''+'' \<or> c = CHR ''-'' then cs else s)
           in case ParseUint s' of
                None \<Rightarrow> None
              | Some un \<Rightarrow>
                  if \<not> neg \<and> un \<ge> 2 ^ 63 then None
                  else if neg \<and> un > 2 ^ 63 then None
                  else Some (if neg then - int un else int un)))"

text \<open>\<open>strconv.ParseBool\<close> accepts exactly twelve spellings.\<close>

definition ParseBool :: "string \<Rightarrow> bool option" where
  "ParseBool s =
     (if s \<in> set [''1'', ''t'', ''T'', ''TRUE'', ''true'', ''True''] then Some True
      else if s \<in> set [''0'', ''f'', ''F'', ''FALSE'', ''false'', ''False''] then Some False
      else None)"

text \<open>
  Floating point is left to its library: \<open>ParseFloat\<close> is \<open>strconv.ParseFloat(s, 64)\<close>
  and \<open>narrow32\<close> the conversion \<open>float32(x)\<close> that \<open>SetFloat\<close> applies to a float32
  destination. Both are parameters of the decoder.
\<close>

record 'f floats =
  ParseFloat :: "string \<Rightarrow> 'f option"
  narrow32 :: "'f \<Rightarrow> 'f"

section \<open>Setters of reflect\<close>

text \<open>
  \<open>SetInt\<close> and \<open>SetUint\<close> convert the 64-bit argument to the destination's width, which
  keeps the low bits (two's complement for the signed kinds).
\<close>

definition wrapInt :: "isize \<Rightarrow> int \<Rightarrow> int" where
  "wrapInt w n = (n + 2 ^ (bits w - 1)) mod 2 ^ bits w - 2 ^ (bits w - 1)"

definition wrapUint :: "isize \<Rightarrow> nat \<Rightarrow> nat" where
  "wrapUint w n = n mod 2 ^ bits w"

text \<open>
  Every setter panics on a read-only value and on a value of another kind than its own.
  \<open>SetFloat\<close> converts to float32 when the destination is one.
\<close>

definition SetString :: "bool \<Rightarrow> gotype \<Rightarrow> 'f govalue \<Rightarrow> string \<Rightarrow> 'f govalue result" where
  "SetString ro T v x =
     (if ro then (v, Some Panic)
      else case T of TString \<Rightarrow> (VString x, None) | _ \<Rightarrow> (v, Some Panic))"

definition SetInt :: "bool \<Rightarrow> gotype \<Rightarrow> 'f govalue \<Rightarrow> int \<Rightarrow> 'f govalue result" where
  "SetInt ro T v x =
     (if ro then (v, Some Panic)
      else case T of TInt w \<Rightarrow> (VInt (wrapInt w x), None) | _ \<Rightarrow> (v, Some Panic))"

definition SetUint :: "bool \<Rightarrow> gotype \<Rightarrow> 'f govalue \<Rightarrow> nat \<Rightarrow> 'f govalue result" where
  "SetUint ro T v x =
     (if ro then (v, Some Panic)
      else case T of TUint w \<Rightarrow> (VUint (wrapUint w x), None) | _ \<Rightarrow> (v, Some Panic))"

definition SetBool :: "bool \<Rightarrow> gotype \<Rightarrow> 'f govalue \<Rightarrow> bool \<Rightarrow> 'f govalue result" where
  "SetBool ro T v x =
     (if ro then (v, Some Panic)
      else case T of TBool \<Rightarrow> (VBool x, None) | _ \<Rightarrow> (v, Some Panic))"

definition SetFloat :: "'f floats \<Rightarrow> bool \<Rightarrow> gotype \<Rightarrow> 'f govalue \<Rightarrow> 'f \<Rightarrow> 'f govalue result" where
  "SetFloat F ro T v x =
     (if ro then (v, Some Panic)
      else case T of
             TFloat F32 \<Rightarrow> (VFloat (narrow32 F x), None)
           | TFloat F64 \<Rightarrow> (VFloat x, None)
           | _ \<Rightarrow> (v, Some Panic))"

section \<open>The scalar decoders\<close>

text \<open>
  Every decoder of decode.go takes the raw value \<open>i\<close> and \<open>rv\<close>, the address of its
  destination. The decoder itself is only ever handed the address of a struct field, of a
  slice element or of a fresh value, so \<open>rv.Type()\<close> is the pointer type \<open>TPtr T\<close> and
  the test \<open>rv.Type().Kind() != reflect.Ptr\<close> never fires. The model passes what the
  pointer leads to: the flag \<open>ro\<close> (the destination was reached through an unexported
  field), the type \<open>T\<close> and the present contents \<open>v\<close>.
\<close>

definition decodeString :: "raw \<Rightarrow> bool \<Rightarrow> gotype \<Rightarrow> 'f govalue \<Rightarrow> 'f govalue result" where
  "decodeString i ro T v =
     (case i of
        RString x \<Rightarrow> SetString ro T v x
      | _ \<Rightarrow> (v, Some (typeError (ValueString i) (TPtr T))))"

definition decodeInt :: "raw \<Rightarrow> bool \<Rightarrow> gotype \<Rightarrow> 'f govalue \<Rightarrow> 'f govalue result" where
  "decodeInt i ro T v =
     (case i of
        RString x \<Rightarrow>
          (case ParseInt x of
             None \<Rightarrow> (v, Some (typeError (ValueString i) (TPtr T)))
           | Some n \<Rightarrow> SetInt ro T v n)
      | _ \<Rightarrow> (v, Some (typeError (ValueString i) (TPtr T))))"

definition decodeUint :: "raw \<Rightarrow> bool \<Rightarrow> gotype \<Rightarrow> 'f govalue \<Rightarrow> 'f govalue result" where
  "decodeUint i ro T v =
     (case i of
        RString x \<Rightarrow>
          (case ParseUint x of
             None \<Rightarrow> (v, Some (typeError (ValueString i) (TPtr T)))
           | Some n \<Rightarrow> SetUint ro T v n)
      | _ \<Rightarrow> (v, Some (typeError (ValueString i) (TPtr T))))"

definition decodeBool :: "raw \<Rightarrow> bool \<Rightarrow> gotype \<Rightarrow> 'f govalue \<Rightarrow> 'f govalue result" where
  "decodeBool i ro T v =
     (case i of
        RString x \<Rightarrow>
          (case ParseBool x of
             None \<Rightarrow> (v, Some (typeError (ValueString i) (TPtr T)))
           | Some n \<Rightarrow> SetBool ro T v n)
      | _ \<Rightarrow> (v, Some (typeError (ValueString i) (TPtr T))))"

definition decodeFloat :: "'f floats \<Rightarrow> raw \<Rightarrow> bool \<Rightarrow> gotype \<Rightarrow> 'f govalue \<Rightarrow> 'f govalue result" where
  "decodeFloat F i ro T v =
     (case i of
        RString x \<Rightarrow>
          (case ParseFloat F x of
             None \<Rightarrow> (v, Some (typeError (ValueString i) (TPtr T)))
           | Some n \<Rightarrow> SetFloat F ro T v n)
      | _ \<Rightarrow> (v, Some (typeError (ValueString i) (TPtr T))))"

section \<open>decodeMap\<close>

text \<open>
  The switch of decodeMap picks the decoder from the kind of the map's element type; a
  kind without a case ends the call with an UnmarshalTypeError.
\<close>

definition mapDecoderFunc ::
  "'f floats \<Rightarrow> gotype \<Rightarrow> (raw \<Rightarrow> bool \<Rightarrow> gotype \<Rightarrow> 'f govalue \<Rightarrow> 'f govalue result) option" where
  "mapDecoderFunc F E =
     (case Kind E of
        KString \<Rightarrow> Some decodeString
      | KInt \<Rightarrow> Some decodeInt
      | KUint \<Rightarrow> Some decodeUint
      | KFloat \<Rightarrow> Some (decodeFloat F)
      | KBool \<Rightarrow> Some decodeBool
      | _ \<Rightarrow> None)"

text \<open>
  The loop \<open>for k, v := range p.vals\<close>, in the order the association list gives (Go
  leaves the order open). \<open>mv\<close> is a fresh value of the element type; \<open>v[0]\<close> panics
  on an empty sequence; \<open>SetMapIndex\<close> panics unless the string \<open>k\<close> is assignable to
  the map's key type.
\<close>

fun decodeMapEntries ::
  "(raw \<Rightarrow> bool \<Rightarrow> gotype \<Rightarrow> ('f::zero) govalue \<Rightarrow> 'f govalue result) \<Rightarrow> gotype \<Rightarrow> gotype \<Rightarrow>
   (string \<times> string list) list \<Rightarrow> (string \<times> 'f govalue) list \<Rightarrow>
   failure + (string \<times> 'f govalue) list" where
  "decodeMapEntries decoderFunc K E [] vv = Inr vv"
| "decodeMapEntries decoderFunc K E ((k, v) # rest) vv =
     (case (if Kind E = KSlice then Inr (RStrings v)
            else case v of [] \<Rightarrow> Inl Panic | x # _ \<Rightarrow> Inr (RString x)) of
        Inl e \<Rightarrow> Inl e
      | Inr val \<Rightarrow>
          (case decoderFunc val False E (zero E) of
             (mv, Some e) \<Rightarrow> Inl e
           | (mv, None) \<Rightarrow>
               if K = TString
               then decodeMapEntries decoderFunc K E rest (AList.update k mv vv)
               else Inl Panic))"

text \<open>
  decodeStruct calls decodeMap on map-typed fields only. For a destination of another
  type, \<open>rv.Type().Elem()\<close> or \<open>reflect.MakeMap\<close> panics, unless the switch has
  returned its error first. The error of the first test carries the pointer type of the
  argument; the error of the default case is built after \<open>rv = rv.Elem()\<close> and
  carries the type of the destination itself.
\<close>

definition decodeMap ::
  "'f floats \<Rightarrow> raw \<Rightarrow> bool \<Rightarrow> gotype \<Rightarrow> ('f::zero) govalue \<Rightarrow> 'f govalue result" where
  "decodeMap F i ro T cur =
     (case i of
        RProperty p \<Rightarrow>
          (case T of
             TMap K E \<Rightarrow>
               (case mapDecoderFunc F E of
                  None \<Rightarrow> (cur, Some (typeError (ValueString i) T))
                | Some decoderFunc \<Rightarrow>
                    (case decodeMapEntries decoderFunc K E (vals p) [] of
                       Inl e \<Rightarrow> (cur, Some e)
                     | Inr vv \<Rightarrow> if ro then (cur, Some Panic) else (VMap vv, None)))
           | TSlice E \<Rightarrow>
               (case mapDecoderFunc F E of
                  None \<Rightarrow> (cur, Some (typeError (ValueString i) T))
                | Some decoderFunc \<Rightarrow> (cur, Some Panic))
           | TPtr E \<Rightarrow>
               (case mapDecoderFunc F E of
                  None \<Rightarrow> (cur, Some (typeError (ValueString i) T))
                | Some decoderFunc \<Rightarrow> (cur, Some Panic))
           | _ \<Rightarrow> (cur, Some Panic))
      | _ \<Rightarrow> (cur, Some (typeError (ValueString i) (TPtr T))))"

section \<open>decodeStruct and decodeSlice\<close>

text \<open>
  The scalar cases of decodeStruct all begin with the same four statements: look the
  property up, skip the field when the property holds no values, read the sequence under
  the empty map-key and take \<open>vals[0]\<close>, which panics when that sequence is empty.
  \<open>Inr None\<close> is the \<open>continue\<close>.
\<close>

definition firstValue :: "ini_section \<Rightarrow> string \<Rightarrow> failure + string option" where
  "firstValue s n =
     (case section_get s n of
        Inl err \<Rightarrow> Inl err
      | Inr prop \<Rightarrow>
          if length (vals prop) = 0 then Inr None
          else (case property_get prop [] of
                  [] \<Rightarrow> Inl Panic
                | x # _ \<Rightarrow> Inr (Some x)))"

text \<open>\<open>reflect.ValueOf(v).Index(i).Interface()\<close> for each index of a raw sequence.\<close>

fun rawElems :: "raw \<Rightarrow> raw list" where
  "rawElems (RStrings xs) = map RString xs"
| "rawElems (RSections ss) = map RSection ss"
| "rawElems _ = []"

text \<open>
  decodeStruct and decodeSlice call each other: a slice of structs is decoded element by
  element with decodeStruct, and a slice-typed field of a struct with decodeSlice.
  \<open>decodeField\<close> is the body of the loop of decodeStruct over the fields and
  \<open>decodeFields\<close> the loop; \<open>decodeElems\<close> is the loop of decodeSlice over the fresh
  slice \<open>vv\<close>, whose elements start at their zero value. As in decodeMap, the error
  of the default case of decodeSlice carries the type of the slice itself, read after
  \<open>rv = rv.Elem()\<close>.
\<close>

function (sequential) decodeStruct ::
      "'f floats \<Rightarrow> raw \<Rightarrow> bool \<Rightarrow> gotype \<Rightarrow> ('f::zero) govalue \<Rightarrow> 'f govalue result"
  and decodeFields ::
      "'f floats \<Rightarrow> ini_section \<Rightarrow> bool \<Rightarrow> structField list \<Rightarrow> 'f govalue list \<Rightarrow>
       'f govalue list result"
  and decodeField ::
      "'f floats \<Rightarrow> ini_section \<Rightarrow> bool \<Rightarrow> structField \<Rightarrow> 'f govalue \<Rightarrow> 'f govalue result"
  and decodeSlice ::
      "'f floats \<Rightarrow> raw \<Rightarrow> bool \<Rightarrow> gotype \<Rightarrow> 'f govalue \<Rightarrow> 'f govalue result"
  and decodeElems ::
      "'f floats \<Rightarrow> raw list \<Rightarrow> gotype \<Rightarrow> failure + 'f govalue list" where
  "decodeStruct F i ro T v =
     (case i of
        RSection s \<Rightarrow>
          (case T of
             TStruct fs \<Rightarrow>
               (case v of
                  VStruct vs \<Rightarrow>
                    (case decodeFields F s ro fs vs of (vs', r) \<Rightarrow> (VStruct vs', r))
                | _ \<Rightarrow> (v, Some Panic))
           | _ \<Rightarrow> (v, Some Panic))
      | _ \<Rightarrow> (v, Some (typeError (ValueString i) (TPtr T))))"
| "decodeFields F s ro [] vs = (vs, None)"
| "decodeFields F s ro (sf # fs) [] = ([], Some Panic)"
| "decodeFields F s ro (sf # fs) (v # vs) =
     (case decodeField F s ro sf v of
        (v', Some err) \<Rightarrow> (v' # vs, Some err)
      | (v', None) \<Rightarrow>
          (case decodeFields F s ro fs vs of (vs', r) \<Rightarrow> (v' # vs', r)))"
| "decodeField F s ro (StructField n pk tg T) v =
     (let sf = StructField n pk tg T;
          ro' = (ro \<or> \<not> IsExported sf);
          t = newTag sf
      in if tag_name t = ''-'' then (v, None)
         else case T of
           TSlice E \<Rightarrow>
             if Kind E = KStruct then (v, None)
             else (case section_get s (tag_name t) of
                     Inl err \<Rightarrow> (v, Some err)
                   | Inr prop \<Rightarrow>
                       (let val = property_get prop []
                        in if length val = 0 then (v, None)
                           else decodeSlice F (RStrings val) ro' (TSlice E) v))
         | TMap K E \<Rightarrow>
             if Kind E = KStruct then (v, None)
             else (case section_get s (tag_name t) of
                     Inl err \<Rightarrow> (v, Some err)
                   | Inr prop \<Rightarrow> decodeMap F (RProperty prop) ro' T v)
         | TString \<Rightarrow>
             if n = ''ININame'' then decodeString (RString (name s)) ro' T v
             else (case firstValue s (tag_name t) of
                     Inl err \<Rightarrow> (v, Some err)
                   | Inr None \<Rightarrow> (v, None)
                   | Inr (Some val) \<Rightarrow> decodeString (RString val) ro' T v)
         | TInt w \<Rightarrow>
             (case firstValue s (tag_name t) of
                Inl err \<Rightarrow> (v, Some err)
              | Inr None \<Rightarrow> (v, None)
              | Inr (Some val) \<Rightarrow> decodeInt (RString val) ro' T v)
         | TUint w \<Rightarrow>
             (case firstValue s (tag_name t) of
                Inl err \<Rightarrow> (v, Some err)
              | Inr None \<Rightarrow> (v, None)
              | Inr (Some val) \<Rightarrow> decodeUint (RString val) ro' T v)
         | TFloat w \<Rightarrow>
             (case firstValue s (tag_name t) of
                Inl err \<Rightarrow> (v, Some err)
              | Inr None \<Rightarrow> (v, None)
              | Inr (Some val) \<Rightarrow> decodeFloat F (RString val) ro' T v)
         | TBool \<Rightarrow>
             (case firstValue s (tag_name t) of
                Inl err \<Rightarrow> (v, Some err)
              | Inr None \<Rightarrow> (v, None)
              | Inr (Some val) \<Rightarrow> decodeBool (RString val) ro' T v)
         | _ \<Rightarrow> (v, None))"
| "decodeSlice F v ro T cur =
     (if rawKind v \<noteq> KSlice then (cur, Some (typeError (ValueString v) (TPtr T)))
      else case T of
        TSlice E \<Rightarrow>
          if Kind E \<in> {KString, KInt, KUint, KStruct, KFloat, KBool}
          then (case decodeElems F (rawElems v) E of
                  Inl err \<Rightarrow> (cur, Some err)
                | Inr vv \<Rightarrow> if ro then (cur, Some Panic) else (VSlice vv, None))
          else (cur, Some (typeError (ValueString v) T))
      | TMap K E \<Rightarrow>
          if Kind E \<in> {KString, KInt, KUint, KStruct, KFloat, KBool}
          then (cur, Some Panic)
          else (cur, Some (typeError (ValueString v) T))
      | TPtr E \<Rightarrow>
          if Kind E \<in> {KString, KInt, KUint, KStruct, KFloat, KBool}
          then (cur, Some Panic)
          else (cur, Some (typeError (ValueString v) T))
      | _ \<Rightarrow> (cur, Some Panic))"
| "decodeElems F [] E = Inr []"
| "decodeElems F (val # rest) E =
     (case (case E of
              TString \<Rightarrow> decodeString val False E (zero E)
            | TInt w \<Rightarrow> decodeInt val False E (zero E)
            | TUint w \<Rightarrow> decodeUint val False E (zero E)
            | TStruct fs \<Rightarrow> decodeStruct F val False E (zero E)
            | TFloat w \<Rightarrow> decodeFloat F val False E (zero E)
            | TBool \<Rightarrow> decodeBool val False E (zero E)
            | _ \<Rightarrow> (zero E, Some Panic)) of
        (sv, Some err) \<Rightarrow> Inl err
      | (sv, None) \<Rightarrow>
          (case decodeElems F rest E of
             Inl err \<Rightarrow> Inl err
           | Inr vv \<Rightarrow> Inr (sv # vv)))"
  by pat_completeness auto

termination
proof (relation "inv_image (less_than <*lex*> less_than)
    (\<lambda>x. case x of
       Inl (Inl (F, i, ro, T, v)) \<Rightarrow> (size T, 0)
     | Inl (Inr (F, s, ro, fs, vs)) \<Rightarrow> (size_list size fs, 0)
     | Inr (Inl (F, s, ro, sf, v)) \<Rightarrow> (size sf, 0)
     | Inr (Inr (Inl (F, v, ro, T, cur))) \<Rightarrow> (size T, 0)
     | Inr (Inr (Inr (F, xs, E))) \<Rightarrow> (size E, Suc (length xs)))", goal_cases)
  case 1
  show ?case by (intro wf_inv_image wf_lex_prod wf_less_than)
qed simp_all


section \<open>decode\<close>

text \<open>
  The argument of decode is a \<open>reflect.Value\<close>: the zero Value (what
  \<open>reflect.ValueOf(nil)\<close> and the \<open>Elem\<close> of a nil pointer are), on which \<open>Type()\<close>
  panics, or a value with its type.
\<close>

datatype 'f Value = ZeroValue | Value gotype "'f govalue"

text \<open>
  \<open>decodeSection\<close> is the body of the loop of decode over the fields of the destination
  (lines 102 to 139), \<open>decodeSections\<close> the loop.
\<close>

definition decodeSection ::
  "'f floats \<Rightarrow> parseTree \<Rightarrow> structField \<Rightarrow> ('f::zero) govalue \<Rightarrow> 'f govalue result" where
  "decodeSection F tree sf sv =
     (let ro' = (\<not> IsExported sf);
          t = newTag sf
      in if tag_name t = ''-'' then (sv, None)
         else case sf_Type sf of
           TStruct fs \<Rightarrow>
             (case parseTree_get tree (tag_name t) of
                Inl err \<Rightarrow> (sv, Some err)
              | Inr sectionGroup \<Rightarrow>
                  (case sectionGroup of
                     [] \<Rightarrow> (sv, None)
                   | val # _ \<Rightarrow> decodeStruct F (RSection val) ro' (sf_Type sf) sv))
         | TSlice E \<Rightarrow>
             if Kind E \<noteq> KStruct then (sv, None)
             else (case parseTree_get tree (tag_name t) of
                     Inl err \<Rightarrow> (sv, Some err)
                   | Inr val \<Rightarrow>
                       if length val = 0 then (sv, None)
                       else decodeSlice F (RSections val) ro' (sf_Type sf) sv)
         | _ \<Rightarrow> (sv, None))"

fun decodeSections ::
  "'f floats \<Rightarrow> parseTree \<Rightarrow> structField list \<Rightarrow> ('f::zero) govalue list \<Rightarrow>
   'f govalue list result" where
  "decodeSections F tree [] vs = (vs, None)"
| "decodeSections F tree (sf # fs) [] = ([], Some Panic)"
| "decodeSections F tree (sf # fs) (v # vs) =
     (case decodeSection F tree sf v of
        (v', Some err) \<Rightarrow> (v' # vs, Some err)
      | (v', None) \<Rightarrow>
          (case decodeSections F tree fs vs of (vs', r) \<Rightarrow> (v' # vs', r)))"

text \<open>
  decode returns the argument with the contents the destination has after the call.
  \<open>reflect.ValueOf(tree).String()\<close> is the fixed text \<open><ini.parseTree Value>\<close>.
\<close>

definition decode :: "'f floats \<Rightarrow> parseTree \<Rightarrow> ('f::zero) Value \<Rightarrow> 'f Value result" where
  "decode F tree rv =
     (case rv of
        ZeroValue \<Rightarrow> (rv, Some Panic)
      | Value T p \<Rightarrow>
          (case T of
             TPtr S \<Rightarrow>
               (case p of
                  VPtr d \<Rightarrow>
                    if Kind S \<noteq> KStruct
                    then (rv, Some (typeError ''<ini.parseTree Value>'' S))
                    else (case decodeStruct F (RSection (global tree)) False S d of
                            (d', Some err) \<Rightarrow> (Value T (VPtr d'), Some err)
                          | (d', None) \<Rightarrow>
                              (case (S, d') of
                                 (TStruct fs, VStruct vs) \<Rightarrow>
                                   (case decodeSections F tree fs vs of
                                      (vs', r) \<Rightarrow> (Value T (VPtr (VStruct vs')), r))
                               | _ \<Rightarrow> (Value T (VPtr d'), Some Panic)))
                | _ \<Rightarrow> (rv, Some Panic))
           | _ \<Rightarrow> (rv, Some (typeError ''<ini.parseTree Value>'' T))))"


section \<open>The conversion of one raw value\<close>

text \<open>
  What \<open>decoderFunc(val, sv)\<close> of decodeSlice does for a scalar element type: the
  decoder the switch picks for the kind of \<open>E\<close>, applied to the raw string \<open>x\<close> and to
  the address of a fresh element of the new slice.
\<close>

definition convertScalar :: "'f floats \<Rightarrow> gotype \<Rightarrow> string \<Rightarrow> ('f::zero) govalue result" where
  "convertScalar F E x =
     (case E of
        TString \<Rightarrow> decodeString (RString x) False E (zero E)
      | TInt w \<Rightarrow> decodeInt (RString x) False E (zero E)
      | TUint w \<Rightarrow> decodeUint (RString x) False E (zero E)
      | TFloat w \<Rightarrow> decodeFloat F (RString x) False E (zero E)
      | TBool \<Rightarrow> decodeBool (RString x) False E (zero E)
      | _ \<Rightarrow> (zero E, Some Panic))"

section \<open>The scalar conversion rules of the specification\<close>

text \<open>
  Section 4.5 of the specification in its own words, to be compared with the decoders of
  the source. An integer or unsigned-integer destination takes base-10 integer text whose
  value is within the range of the destination; a floating-point destination takes
  floating-point text; a boolean destination takes a boolean literal; a string destination
  takes the raw text as it is. \<open>None\<close> is the typed conversion failure.
\<close>

definition specConversion :: "'f floats \<Rightarrow> gotype \<Rightarrow> string \<Rightarrow> 'f govalue option" where
  "specConversion F E x =
     (case E of
        TString \<Rightarrow> Some (VString x)
      | TInt w \<Rightarrow>
          (case ParseInt x of
             None \<Rightarrow> None
           | Some n \<Rightarrow>
               if - (2 ^ (bits w - 1)) \<le> n \<and> n < 2 ^ (bits w - 1) then Some (VInt n) else None)
      | TUint w \<Rightarrow>
          (case ParseUint x of
             None \<Rightarrow> None
           | Some n \<Rightarrow> if n < 2 ^ bits w then Some (VUint n) else None)
      | TFloat w \<Rightarrow>
          (case ParseFloat F x of
             None \<Rightarrow> None
           | Some y \<Rightarrow> Some (VFloat (case w of F32 \<Rightarrow> narrow32 F y | F64 \<Rightarrow> y)))
      | TBool \<Rightarrow> (case ParseBool x of None \<Rightarrow> None | Some b \<Rightarrow> Some (VBool b))
      | _ \<Rightarrow> None)"

text \<open>
  Text that is no literal of the destination's kind at all: not base-10 integer text of at
  most 64 bits, not floating-point text, not a boolean literal. Every text is a string.
\<close>

definition unparsable :: "'f floats \<Rightarrow> gotype \<Rightarrow> string \<Rightarrow> bool" where
  "unparsable F E x =
     (case E of
        TInt w \<Rightarrow> ParseInt x = None
      | TUint w \<Rightarrow> ParseUint x = None
      | TFloat w \<Rightarrow> ParseFloat F x = None
      | TBool \<Rightarrow> ParseBool x = None
      | _ \<Rightarrow> False)"

section \<open>Encoding\<close>

text \<open>
  Marshal, the encoder, is not among the sources: only its test is. The definitions of
  this section follow sections 4.4, 4.5 and 6 of the specification. \<open>encode\<close> gives the
  parse tree of a record, and \<open>Marshal\<close> writes that tree down line by line.
\<close>

text \<open>
  Modelled from the spec: the rendering of an unsigned integer is not among the sources;
  by section 4.5 it is base-10 digit text.
\<close>

fun FormatUint :: "nat \<Rightarrow> string" where
  "FormatUint n =
     (if n < 10 then [char_of (48 + n)]
      else FormatUint (n div 10) @ [char_of (48 + n mod 10)])"

declare FormatUint.simps [simp del]

text \<open>
  Modelled from the spec: the rendering of a signed integer is not among the sources; by
  section 4.5 it is base-10 digit text, with a minus sign for a negative number.
\<close>

definition FormatInt :: "int \<Rightarrow> string" where
  "FormatInt n = (if n < 0 then CHR ''-'' # FormatUint (nat (- n)) else FormatUint (nat n))"

text \<open>
  Modelled from the spec: the rendering of a boolean is not among the sources; by section
  4.5 it is the literal \<open>true\<close> or \<open>false\<close>.
\<close>

definition FormatBool :: "bool \<Rightarrow> string" where
  "FormatBool b = (if b then ''true'' else ''false'')"

text \<open>The scalar kinds: string, integer, unsigned integer, float and boolean.\<close>

definition isScalar :: "gotype \<Rightarrow> bool" where
  "isScalar T = (Kind T \<in> {KString, KInt, KUint, KFloat, KBool})"

text \<open>
  Modelled from the spec: the rendering of a scalar is not among the sources; by section
  4.5 strings render verbatim, numbers and booleans as above, and floats as their library
  renders them (\<open>FormatFloat\<close>, the shortest decimal text that reads back).
\<close>

definition renderScalar :: "('f \<Rightarrow> string) \<Rightarrow> 'f govalue \<Rightarrow> string" where
  "renderScalar FormatFloat v =
     (case v of
        VString x \<Rightarrow> x
      | VInt n \<Rightarrow> FormatInt n
      | VUint n \<Rightarrow> FormatUint n
      | VFloat x \<Rightarrow> FormatFloat x
      | VBool b \<Rightarrow> FormatBool b
      | _ \<Rightarrow> [])"

text \<open>
  Modelled from the spec: what Marshal emits for one field of a record bound from
  properties is not among the sources. By sections 4.1, 4.3 and 4.4: a field with the
  effective name \<open>-\<close> emits nothing; the origin-name field has no property; a scalar
  emits one value under its effective name, unless it is optional and zero; a collection
  of scalars emits its values in order under one key; a keyed collection emits one value
  per map-key; an empty collection emits nothing; a record or a collection of records
  inside a record is skipped.
\<close>

definition encodeField ::
  "('f \<Rightarrow> string) \<Rightarrow> structField \<Rightarrow> ('f::zero) govalue \<Rightarrow> (string \<times> property) list" where
  "encodeField FormatFloat sf v =
     (let t = newTag sf
      in if tag_name t = ''-'' then []
         else if sf_Type sf = TString \<and> sf_Name sf = ''ININame'' then []
         else if isScalar (sf_Type sf)
         then (if tag_omitempty t \<and> v = zero (sf_Type sf) then []
               else [(tag_name t, \<lparr>vals = [([], [renderScalar FormatFloat v])]\<rparr>)])
         else case (sf_Type sf, v) of
                (TSlice E, VSlice xs) \<Rightarrow>
                  if isScalar E \<and> xs \<noteq> []
                  then [(tag_name t, \<lparr>vals = [([], map (renderScalar FormatFloat) xs)]\<rparr>)]
                  else []
              | (TMap K E, VMap kvs) \<Rightarrow>
                  if isScalar E \<and> kvs \<noteq> []
                  then [(tag_name t, \<lparr>vals = map (\<lambda>(k, x). (k, [renderScalar FormatFloat x])) kvs\<rparr>)]
                  else []
              | _ \<Rightarrow> [])"

text \<open>
  Modelled from the spec: the properties Marshal emits for a record are not among the
  sources; by section 4.4 they are those of its fields in declared order.
\<close>

definition encodeProps ::
  "('f \<Rightarrow> string) \<Rightarrow> structField list \<Rightarrow> ('f::zero) govalue list \<Rightarrow> (string \<times> property) list" where
  "encodeProps FormatFloat fs vs = concat (map2 (encodeField FormatFloat) fs vs)"

text \<open>
  Modelled from the spec: the choice of a section's name by Marshal is not among the
  sources; by section 4.4 the value of the record's origin-name field, if present,
  overrides the resolved name of the field. \<open>originName\<close> is that value, when the
  record has the field and it is not empty.
\<close>

definition originName :: "structField list \<Rightarrow> 'f govalue list \<Rightarrow> string option" where
  "originName fs vs =
     (case find (\<lambda>(sf, v). sf_Name sf = ''ININame'' \<and> sf_Type sf = TString) (zip fs vs) of
        Some (sf, VString n) \<Rightarrow> if n = [] then None else Some n
      | _ \<Rightarrow> None)"

text \<open>
  Modelled from the spec: the name of the section Marshal emits for a record is not among
  the sources; by section 4.4 it is the record's origin name when it has one, and the
  resolved name \<open>n\<close> of the field that holds the record otherwise.
\<close>

definition sectionName :: "string \<Rightarrow> structField list \<Rightarrow> 'f govalue list \<Rightarrow> string" where
  "sectionName n fs vs = (case originName fs vs of Some m \<Rightarrow> m | None \<Rightarrow> n)"

text \<open>
  Modelled from the spec: the section Marshal emits for a record is not among the
  sources; by section 4.4 it is the section header followed by the record's properties.
\<close>

definition encodeSection ::
  "('f \<Rightarrow> string) \<Rightarrow> string \<Rightarrow> gotype \<Rightarrow> ('f::zero) govalue \<Rightarrow> ini_section list" where
  "encodeSection FormatFloat n T v =
     (case (T, v) of
        (TStruct fs, VStruct vs) \<Rightarrow>
          [\<lparr>name = sectionName n fs vs, props = encodeProps FormatFloat fs vs\<rparr>]
      | _ \<Rightarrow> [])"

text \<open>
  Modelled from the spec: the sections Marshal emits for a top-level field are not among
  the sources; by section 4.4 a nested record gives one section and a collection of
  records one section per element, each under the resolved name of the field unless the
  element carries its own origin name.
\<close>

definition encodeSections ::
  "('f \<Rightarrow> string) \<Rightarrow> structField \<Rightarrow> ('f::zero) govalue \<Rightarrow> ini_section list" where
  "encodeSections FormatFloat sf v =
     (let t = newTag sf
      in if tag_name t = ''-'' then []
         else case (sf_Type sf, v) of
                (TStruct fs, VStruct vs) \<Rightarrow> encodeSection FormatFloat (tag_name t) (sf_Type sf) v
              | (TSlice E, VSlice xs) \<Rightarrow>
                  concat (map (encodeSection FormatFloat (tag_name t) E) xs)
              | _ \<Rightarrow> [])"

text \<open>
  Modelled from the spec: the parse tree that Marshal builds is not among the sources; by
  section 4.4 Marshal walks the fields in declared order and emits the properties of the
  top-level fields under no section, then the sections.
\<close>

definition encode :: "('f \<Rightarrow> string) \<Rightarrow> gotype \<Rightarrow> ('f::zero) govalue \<Rightarrow> parseTree" where
  "encode FormatFloat T x =
     (case (T, x) of
        (TStruct fs, VStruct vs) \<Rightarrow>
          \<lparr>global = \<lparr>name = [], props = encodeProps FormatFloat fs vs\<rparr>,
           sections = concat (map2 (encodeSections FormatFloat) fs vs)\<rparr>
      | _ \<Rightarrow> \<lparr>global = \<lparr>name = [], props = []\<rparr>, sections = []\<rparr>)"

text \<open>
  Modelled from the spec: the text of a property is not among the sources; by section 6
  it is one line \<open>key=value\<close> for each raw value, and \<open>key[subkey]=value\<close> under a
  map-key.
\<close>

definition renderProperty :: "string \<times> property \<Rightarrow> string list" where
  "renderProperty kp =
     concat (map (\<lambda>(mk, xs).
               map (\<lambda>x. fst kp @ (if mk = [] then [] else ''['' @ mk @ '']'') @ ''='' @ x) xs)
             (vals (snd kp)))"

text \<open>
  Modelled from the spec: the text of a section is not among the sources; by section 6 it
  is the header \<open>[SectionName]\<close> followed by the lines of its properties.
\<close>

definition renderSection :: "ini_section \<Rightarrow> string list" where
  "renderSection s = (''['' @ name s @ '']'') # concat (map renderProperty (props s))"

text \<open>The lines of a text, with a newline between them and none at the end.\<close>

fun joinLines :: "string list \<Rightarrow> string" where
  "joinLines [] = []"
| "joinLines [l] = l"
| "joinLines (l # ls) = l @ CHR 0x0A # joinLines ls"

text \<open>
  Modelled from the spec: Marshal is not among the sources; by sections 4.4 and 6 its
  output is the lines of the global properties followed by those of the sections.
\<close>

definition Marshal :: "('f \<Rightarrow> string) \<Rightarrow> gotype \<Rightarrow> ('f::zero) govalue \<Rightarrow> string" where
  "Marshal FormatFloat T x =
     (let t = encode FormatFloat T x
      in joinLines (concat (map renderProperty (props (global t)))
                    @ concat (map renderSection (sections t))))"

section \<open>Reading the text\<close>

text \<open>
  The parser of the repository is not among the sources, and the specification leaves the
  tokenizer at its interface. The closed theorems below read their texts with the parser
  of this section, which knows the three kinds of line of section 6 and nothing else:
  comments, continuation lines and white space are not modelled, a line without content is
  skipped, and any other line is an error.
\<close>







section \<open>Records that encoding and decoding agree on\<close>

text \<open>
  A scalar value of a scalar type: an integer within the range of its width, and a float
  that the library reads back from its own rendering (and that is a float32 already when
  the type is float32).
\<close>

definition scalarValue :: "'f floats \<Rightarrow> ('f \<Rightarrow> string) \<Rightarrow> gotype \<Rightarrow> 'f govalue \<Rightarrow> bool" where
  "scalarValue F FormatFloat T v =
     (case (T, v) of
        (TString, VString x) \<Rightarrow> True
      | (TInt w, VInt n) \<Rightarrow> - (2 ^ (bits w - 1)) \<le> n \<and> n < 2 ^ (bits w - 1)
      | (TUint w, VUint n) \<Rightarrow> n < 2 ^ bits w
      | (TFloat w, VFloat x) \<Rightarrow>
          ParseFloat F (FormatFloat x) = Some x \<and> (w = F32 \<longrightarrow> narrow32 F x = x)
      | (TBool, VBool b) \<Rightarrow> True
      | _ \<Rightarrow> False)"

text \<open>
  A value of a type bound from one property: a scalar, a slice of scalars, or a map from
  strings to scalars with distinct keys.
\<close>

definition propValue :: "'f floats \<Rightarrow> ('f \<Rightarrow> string) \<Rightarrow> gotype \<Rightarrow> 'f govalue \<Rightarrow> bool" where
  "propValue F FormatFloat T v =
     (case T of
        TSlice E \<Rightarrow>
          isScalar E \<and>
          (case v of
             VNil \<Rightarrow> True
           | VSlice xs \<Rightarrow> list_all (scalarValue F FormatFloat E) xs
           | _ \<Rightarrow> False)
      | TMap K E \<Rightarrow>
          K = TString \<and> isScalar E \<and>
          (case v of
             VNil \<Rightarrow> True
           | VMap kvs \<Rightarrow>
               distinct (map fst kvs) \<and> list_all (\<lambda>(k, x). scalarValue F FormatFloat E x) kvs
           | _ \<Rightarrow> False)
      | _ \<Rightarrow> scalarValue F FormatFloat T v)"

text \<open>
  A field bound from a property of the section named \<open>n\<close>: exported, not excluded by
  the tag \<open>-\<close>, and, when it is the origin-name field, holding \<open>n\<close>.
\<close>

definition fieldValue ::
  "'f floats \<Rightarrow> ('f \<Rightarrow> string) \<Rightarrow> string \<Rightarrow> structField \<Rightarrow> 'f govalue \<Rightarrow> bool" where
  "fieldValue F FormatFloat n sf v =
     (IsExported sf \<and> tag_name (newTag sf) \<noteq> ''-''
      \<and> propValue F FormatFloat (sf_Type sf) v
      \<and> (sf_Name sf = ''ININame'' \<and> sf_Type sf = TString \<longrightarrow> v = VString n))"

text \<open>The fields of a record bound from a section named \<open>n\<close>, with distinct names.\<close>

definition recordValue ::
  "'f floats \<Rightarrow> ('f \<Rightarrow> string) \<Rightarrow> string \<Rightarrow> structField list \<Rightarrow> 'f govalue list \<Rightarrow> bool" where
  "recordValue F FormatFloat n fs vs =
     (distinct (map (\<lambda>sf. tag_name (newTag sf)) fs)
      \<and> list_all2 (fieldValue F FormatFloat n) fs vs)"

text \<open>A top-level field bound from sections rather than from a global property.\<close>

definition isSectionField :: "structField \<Rightarrow> bool" where
  "isSectionField sf =
     (case sf_Type sf of TStruct gs \<Rightarrow> True | TSlice E \<Rightarrow> Kind E = KStruct | _ \<Rightarrow> False)"








section \<open>Concrete inputs\<close>

text \<open>
  The inputs the closed theorems below are evaluated at: a floating-point library that
  parses nothing, a field without a tag, and a property that holds a sequence of raw
  values under the empty map-key.
\<close>

definition noFloats :: "nat floats" where
  "noFloats = \<lparr>ParseFloat = (\<lambda>s. None), narrow32 = (\<lambda>x. x)\<rparr>"

definition plainField :: "string \<Rightarrow> gotype \<Rightarrow> structField" where
  "plainField n T = StructField n [] (StructTag None False) T"

definition plainProperty :: "string \<Rightarrow> string list \<Rightarrow> string \<times> property" where
  "plainProperty k xs = (k, \<lparr>vals = [([], xs)]\<rparr>)"

text \<open>
  A destination with a nested record Database and a string Name, and a tree whose global
  section sets Name and whose section Database gives a port that is not a number.
\<close>

definition serverT :: gotype where
  "serverT = TStruct [plainField ''Database'' (TStruct [plainField ''Port'' (TInt Native)]),
                      plainField ''Name'' TString]"

definition serverTree :: parseTree where
  "serverTree =
     \<lparr>global = \<lparr>name = [], props = [plainProperty ''Name'' [''main'']]\<rparr>,
      sections = [\<lparr>name = ''Database'', props = [plainProperty ''Port'' [''abc'']]\<rparr>]\<rparr>"

text \<open>
  A destination with two scalar fields and a tree whose global Port is not a number; a
  string field named ININame with a tag override, and a section that has properties of both
  names.
\<close>

definition listenerFields :: "structField list" where
  "listenerFields = [plainField ''Port'' (TInt Native), plainField ''Name'' TString]"

definition listenerTree :: parseTree where
  "listenerTree =
     \<lparr>global = \<lparr>name = [], props = [plainProperty ''Port'' [''abc''], plainProperty ''Name'' [''main'']]\<rparr>,
      sections = []\<rparr>"

definition originField :: structField where
  "originField = StructField ''ININame'' [] (StructTag (Some ''origin'') False) TString"

definition originSection :: ini_section where
  "originSection =
     \<lparr>name = ''Database'',
      props = [plainProperty ''ININame'' [''a''], plainProperty ''origin'' [''b''],
               plainProperty ''Port'' [''143'']]\<rparr>"

text \<open>
  A floating-point library for the closed theorems: the numbers with at most two decimal
  places, kept as hundredths (12.34 is 1234). \<open>parseCenti\<close> reads the digits before
  and after the point, and \<open>formatCenti\<close> writes the shortest such text.
\<close>

definition digitValue :: "char \<Rightarrow> nat" where
  "digitValue c = of_char c - 48"

definition parseCenti :: "string \<Rightarrow> nat option" where
  "parseCenti s =
     (case ParseUint (takeWhile (\<lambda>c. c \<noteq> CHR ''.'') s) of
        None \<Rightarrow> None
      | Some n \<Rightarrow>
          (case dropWhile (\<lambda>c. c \<noteq> CHR ''.'') s of
             [] \<Rightarrow> Some (100 * n)
           | [p, d] \<Rightarrow> if isDigit d then Some (100 * n + 10 * digitValue d) else None
           | [p, d, e] \<Rightarrow>
               if isDigit d \<and> isDigit e then Some (100 * n + 10 * digitValue d + digitValue e)
               else None
           | _ \<Rightarrow> None))"

definition formatCenti :: "nat \<Rightarrow> string" where
  "formatCenti x =
     FormatUint (x div 100) @
       (if x mod 100 = 0 then []
        else if x mod 10 = 0 then [CHR ''.'', char_of (48 + x mod 100 div 10)]
        else [CHR ''.'', char_of (48 + x mod 100 div 10), char_of (48 + x mod 10)])"

definition centiFloats :: "nat floats" where
  "centiFloats = \<lparr>ParseFloat = parseCenti, narrow32 = (\<lambda>x. x)\<rparr>"

text \<open>
  The record of the encoder's test, and a record whose origin name is not the name of its
  field.
\<close>

definition databaseT :: "structField list" where
  "databaseT =
     [plainField ''Database''
        (TStruct [plainField ''Server'' TString, plainField ''Port'' (TInt Native),
                  plainField ''Encrypted'' TBool, plainField ''Size'' (TUint Native),
                  plainField ''Value'' (TFloat F64)])]"

definition databaseX :: "nat govalue list" where
  "databaseX =
     [VStruct [VString ''192.0.2.62'', VInt 143, VBool False, VUint 1234, VFloat 1234]]"

definition primaryT :: gotype where
  "primaryT =
     TStruct [plainField ''Database''
                (TStruct [plainField ''ININame'' TString, plainField ''Server'' TString])]"

definition primaryX :: "nat govalue" where
  "primaryX = VStruct [VStruct [VString ''primary'', VString ''192.0.2.62'']]"

text \<open>
  A record Service with a name and a slice of 16-bit ports, and a section that gives both;
  a slice field that is not exported, and one excluded by its tag.
\<close>

definition serviceFields :: "structField list" where
  "serviceFields = [plainField ''Name'' TString, plainField ''Ports'' (TSlice (TInt B16))]"

definition serviceSection :: ini_section where
  "serviceSection =
     \<lparr>name = ''Service'',
      props = [plainProperty ''Name'' [''web''], plainProperty ''Ports'' [''80'', ''443'']]\<rparr>"

definition hiddenPorts :: structField where
  "hiddenPorts = StructField ''ports'' ''main'' (StructTag None False) (TSlice (TInt Native))"

definition excludedPorts :: structField where
  "excludedPorts = StructField ''Ports'' [] (StructTag (Some ''-'') False) (TSlice (TInt Native))"










text \<open>
  A record with an integer Port and the origin-name field; an integer field named ININame
  that is tagged Port; an origin-name field excluded by its tag; and a nested record that
  is not exported.
\<close>

definition originFields :: "structField list" where
  "originFields = [plainField ''Port'' (TInt Native), originField]"

definition countField :: structField where
  "countField = StructField ''ININame'' [] (StructTag (Some ''Port'') False) (TInt Native)"

definition excludedOrigin :: structField where
  "excludedOrigin = StructField ''ININame'' [] (StructTag (Some ''-'') False) TString"

definition hiddenRecord :: structField where
  "hiddenRecord =
     StructField ''database'' ''main'' (StructTag None False) (TStruct [plainField ''ININame'' TString])"












section \<open>Basic facts\<close>

declare decodeStruct.simps [simp del] decodeSlice.simps [simp del] decodeField.simps [simp del]

lemmas scalar_defs = decodeString_def decodeInt_def decodeUint_def decodeBool_def
  decodeFloat_def SetString_def SetInt_def SetUint_def SetBool_def SetFloat_def wrapInt_def
  wrapUint_def ParseInt_def ParseUint_def ParseBool_def isDigit_def maxUint64_def
  typeError_def

lemmas lookup_defs = firstValue_def newTag_def parseTree_get_def section_get_def
  property_get_def IsExported_def plainField_def plainProperty_def

lemmas input_defs = listenerFields_def listenerTree_def originField_def originSection_def
  serverT_def serverTree_def centiFloats_def
  databaseT_def databaseX_def primaryT_def primaryX_def

lemmas service_defs = serviceFields_def serviceSection_def hiddenPorts_def excludedPorts_def


lemmas origin_defs = originFields_def countField_def excludedOrigin_def hiddenRecord_def


lemmas encode_defs = Marshal_def encode_def encodeSections_def encodeSection_def encodeProps_def
  encodeField_def originName_def sectionName_def isScalar_def renderScalar_def renderSection_def
  renderProperty_def FormatInt_def FormatBool_def




lemmas decode_simps = decodeStruct.simps decodeSlice.simps decodeField.simps decode_def
  decodeSection_def decodeMap_def mapDecoderFunc_def

subsection \<open>A failing decoder leaves its destination as it was\<close>

lemma SetString_fail: "SetString ro T v x = (v', Some e) \<Longrightarrow> v' = v"
  by (auto simp: SetString_def split: if_splits gotype.splits)
lemma SetInt_fail: "SetInt ro T v x = (v', Some e) \<Longrightarrow> v' = v"
  by (auto simp: SetInt_def split: if_splits gotype.splits)
lemma SetUint_fail: "SetUint ro T v x = (v', Some e) \<Longrightarrow> v' = v"
  by (auto simp: SetUint_def split: if_splits gotype.splits)
lemma SetBool_fail: "SetBool ro T v x = (v', Some e) \<Longrightarrow> v' = v"
  by (auto simp: SetBool_def split: if_splits gotype.splits)
lemma SetFloat_fail: "SetFloat F ro T v x = (v', Some e) \<Longrightarrow> v' = v"
  by (auto simp: SetFloat_def split: if_splits gotype.splits fsize.splits)

lemma decodeString_fail: "decodeString i ro T v = (v', Some e) \<Longrightarrow> v' = v"
  by (auto simp: decodeString_def split: raw.splits dest: SetString_fail)
lemma decodeInt_fail: "decodeInt i ro T v = (v', Some e) \<Longrightarrow> v' = v"
  by (auto simp: decodeInt_def split: raw.splits option.splits dest: SetInt_fail)
lemma decodeUint_fail: "decodeUint i ro T v = (v', Some e) \<Longrightarrow> v' = v"
  by (auto simp: decodeUint_def split: raw.splits option.splits dest: SetUint_fail)
lemma decodeBool_fail: "decodeBool i ro T v = (v', Some e) \<Longrightarrow> v' = v"
  by (auto simp: decodeBool_def split: raw.splits option.splits dest: SetBool_fail)
lemma decodeFloat_fail: "decodeFloat F i ro T v = (v', Some e) \<Longrightarrow> v' = v"
  by (auto simp: decodeFloat_def split: raw.splits option.splits dest: SetFloat_fail)

lemma decodeMap_fail: "decodeMap F i ro T v = (v', Some e) \<Longrightarrow> v' = v"
  by (auto simp: decodeMap_def split: raw.splits gotype.splits option.splits sum.splits if_splits)

lemma decodeSlice_fail: "decodeSlice F i ro T v = (v', Some e) \<Longrightarrow> v' = v"
  by (auto simp: decodeSlice.simps split: gotype.splits sum.splits if_splits)

lemma decodeField_skip: "tag_name (newTag sf) = ''-'' \<Longrightarrow> decodeField F s ro sf v = (v, None)"
  by (cases sf) (simp add: decodeField.simps)

lemma decodeField_untouched_kind:
  "Kind (sf_Type sf) \<in> {KStruct, KPtr, KOther} \<Longrightarrow> decodeField F s ro sf v = (v, None)"
  by (cases sf; cases "sf_Type sf") (simp_all add: decodeField.simps Let_def)

lemma decodeField_slice_of_structs:
  "sf_Type sf = TSlice E \<Longrightarrow> Kind E = KStruct \<Longrightarrow> decodeField F s ro sf v = (v, None)"
  by (cases sf) (simp add: decodeField.simps Let_def)

lemma decodeField_fail: "decodeField F s ro sf v = (v', Some e) \<Longrightarrow> v' = v"
proof (cases sf)
  case (StructField n pk tg T)
  assume a: "decodeField F s ro sf v = (v', Some e)"
  show ?thesis
  proof (cases T)
    case (TSlice E)
    with a StructField show ?thesis
      by (auto simp: decodeField.simps Let_def split: if_splits sum.splits dest: decodeSlice_fail)
  next
    case (TMap K E)
    with a StructField show ?thesis
      by (auto simp: decodeField.simps Let_def split: if_splits sum.splits dest: decodeMap_fail)
  next
    case TString
    with a StructField show ?thesis
      by (auto simp: decodeField.simps Let_def split: if_splits sum.splits option.splits dest: decodeString_fail)
  next
    case (TInt w)
    with a StructField show ?thesis
      by (auto simp: decodeField.simps Let_def split: if_splits sum.splits option.splits dest: decodeInt_fail)
  next
    case (TUint w)
    with a StructField show ?thesis
      by (auto simp: decodeField.simps Let_def split: if_splits sum.splits option.splits dest: decodeUint_fail)
  next
    case (TFloat w)
    with a StructField show ?thesis
      by (auto simp: decodeField.simps Let_def split: if_splits sum.splits option.splits dest: decodeFloat_fail)
  next
    case TBool
    with a StructField show ?thesis
      by (auto simp: decodeField.simps Let_def split: if_splits sum.splits option.splits dest: decodeBool_fail)
  qed (use a StructField in \<open>auto simp: decodeField.simps Let_def split: if_splits\<close>)
qed


lemma decodeFields_ok:
  "decodeFields F s ro fs vs = (vs', None) \<Longrightarrow> length vs = length fs \<Longrightarrow>
   length vs' = length vs \<and> (\<forall>j<length fs. decodeField F s ro (fs ! j) (vs ! j) = (vs' ! j, None))"
proof (induction fs arbitrary: vs vs')
  case Nil
  then show ?case by simp
next
  case (Cons sf fs)
  then obtain v vs0 where vs: "vs = v # vs0" by (cases vs) auto
  from Cons.prems vs obtain v' vs0' where
    f: "decodeField F s ro sf v = (v', None)" and
    r: "decodeFields F s ro fs vs0 = (vs0', None)" and
    e: "vs' = v' # vs0'"
    by (auto split: prod.splits option.splits)
  from Cons.IH [OF r] Cons.prems vs have
    ih: "length vs0' = length vs0" "\<forall>j<length fs. decodeField F s ro (fs ! j) (vs0 ! j) = (vs0' ! j, None)"
    by auto
  show ?case
  proof (intro conjI allI impI)
    show "length vs' = length vs" using ih e vs by simp
  next
    fix j assume "j < length (sf # fs)"
    then show "decodeField F s ro ((sf # fs) ! j) (vs ! j) = (vs' ! j, None)"
      using f ih e vs by (cases j) auto
  qed
qed

lemma decodeFields_err:
  "decodeFields F s ro fs vs = (vs', Some e) \<Longrightarrow> length vs = length fs \<Longrightarrow>
   \<exists>i<length fs. length vs' = length vs
     \<and> decodeField F s ro (fs ! i) (vs ! i) = (vs ! i, Some e)
     \<and> (\<forall>j<i. decodeField F s ro (fs ! j) (vs ! j) = (vs' ! j, None))
     \<and> (\<forall>j. i \<le> j \<and> j < length vs \<longrightarrow> vs' ! j = vs ! j)"
proof (induction fs arbitrary: vs vs')
  case Nil
  then show ?case by simp
next
  case (Cons sf fs)
  then obtain v vs0 where vs: "vs = v # vs0" by (cases vs) auto
  obtain v' r where f: "decodeField F s ro sf v = (v', r)" by (cases "decodeField F s ro sf v")
  show ?case
  proof (cases r)
    case (Some e')
    with f Cons.prems vs have e: "e' = e" "vs' = v' # vs0" by auto
    from f Some have "v' = v" by (auto dest: decodeField_fail)
    with f Some e vs show ?thesis
      by (intro exI [of _ 0]) auto
  next
    case None
    with f Cons.prems vs obtain vs0' where
      r: "decodeFields F s ro fs vs0 = (vs0', Some e)" and e: "vs' = v' # vs0'"
      by (auto split: prod.splits)
    from Cons.IH [OF r] Cons.prems vs obtain i where i: "i < length fs"
      "length vs0' = length vs0"
      "decodeField F s ro (fs ! i) (vs0 ! i) = (vs0 ! i, Some e)"
      "\<forall>j<i. decodeField F s ro (fs ! j) (vs0 ! j) = (vs0' ! j, None)"
      "\<forall>j. i \<le> j \<and> j < length vs0 \<longrightarrow> vs0' ! j = vs0 ! j"
      by auto
    show ?thesis
    proof (intro exI [of _ "Suc i"] conjI allI impI)
      show "Suc i < length (sf # fs)" using i by simp
      show "length vs' = length vs" using i e vs by simp
      show "decodeField F s ro ((sf # fs) ! Suc i) (vs ! Suc i) = (vs ! Suc i, Some e)"
        using i vs by simp
    next
      fix j assume "j < Suc i"
      then show "decodeField F s ro ((sf # fs) ! j) (vs ! j) = (vs' ! j, None)"
        using f None i e vs by (cases j) auto
    next
      fix j assume "Suc i \<le> j \<and> j < length vs"
      then show "vs' ! j = vs ! j"
        using i e vs by (cases j) auto
    qed
  qed
qed


subsection \<open>The loop of decode over the sections\<close>


lemma decodeSections_err:
  "decodeSections F tree fs vs = (vs', Some e) \<Longrightarrow> length vs = length fs \<Longrightarrow>
   \<exists>i<length fs. length vs' = length vs
     \<and> decodeSection F tree (fs ! i) (vs ! i) = (vs' ! i, Some e)
     \<and> (\<forall>j<i. decodeSection F tree (fs ! j) (vs ! j) = (vs' ! j, None))
     \<and> (\<forall>j. i < j \<and> j < length vs \<longrightarrow> vs' ! j = vs ! j)"
proof (induction fs arbitrary: vs vs')
  case Nil
  then show ?case by simp
next
  case (Cons sf fs)
  then obtain v vs0 where vs: "vs = v # vs0" by (cases vs) auto
  obtain v' r where f: "decodeSection F tree sf v = (v', r)"
    by (cases "decodeSection F tree sf v")
  show ?case
  proof (cases r)
    case (Some e')
    with f Cons.prems vs have e: "e' = e" "vs' = v' # vs0" by auto
    with f Some vs show ?thesis
      by (intro exI [of _ 0]) auto
  next
    case None
    with f Cons.prems vs obtain vs0' where
      r: "decodeSections F tree fs vs0 = (vs0', Some e)" and e: "vs' = v' # vs0'"
      by (auto split: prod.splits)
    from Cons.IH [OF r] Cons.prems vs obtain i where i: "i < length fs"
      "length vs0' = length vs0"
      "decodeSection F tree (fs ! i) (vs0 ! i) = (vs0' ! i, Some e)"
      "\<forall>j<i. decodeSection F tree (fs ! j) (vs0 ! j) = (vs0' ! j, None)"
      "\<forall>j. i < j \<and> j < length vs0 \<longrightarrow> vs0' ! j = vs0 ! j"
      by auto
    show ?thesis
    proof (intro exI [of _ "Suc i"] conjI allI impI)
      show "Suc i < length (sf # fs)" using i by simp
      show "length vs' = length vs" using i e vs by simp
      show "decodeSection F tree ((sf # fs) ! Suc i) (vs ! Suc i) = (vs' ! Suc i, Some e)"
        using i vs e by simp
    next
      fix j assume "j < Suc i"
      then show "decodeSection F tree ((sf # fs) ! j) (vs ! j) = (vs' ! j, None)"
        using f None i e vs by (cases j) auto
    next
      fix j assume "Suc i < j \<and> j < length vs"
      then show "vs' ! j = vs ! j"
        using i e vs by (cases j) auto
    qed
  qed
qed


lemma decodeStruct_struct:
  "decodeStruct F (RSection s) ro (TStruct fs) (VStruct vs) =
     (case decodeFields F s ro fs vs of (vs', r) \<Rightarrow> (VStruct vs', r))"
  by (simp add: decodeStruct.simps)

lemma decode_struct:
  "decode F tree (Value (TPtr (TStruct fs)) (VPtr (VStruct vs))) =
     (case decodeFields F (global tree) False fs vs of
        (vs1, Some err) \<Rightarrow> (Value (TPtr (TStruct fs)) (VPtr (VStruct vs1)), Some err)
      | (vs1, None) \<Rightarrow>
          (case decodeSections F tree fs vs1 of
             (vs', r) \<Rightarrow> (Value (TPtr (TStruct fs)) (VPtr (VStruct vs')), r)))"
  by (simp add: decode_def decodeStruct_struct split: prod.splits option.splits)



lemma decodeSection_struct_absent:
  "sf_Type sf = TStruct gs \<Longrightarrow> parseTree_get tree (tag_name (newTag sf)) = Inr [] \<Longrightarrow>
   decodeSection F tree sf v = (v, None)"
  by (simp add: decodeSection_def Let_def)

lemma decodeSection_struct_first:
  "sf_Type sf = TStruct gs \<Longrightarrow> tag_name (newTag sf) \<noteq> ''-'' \<Longrightarrow>
   parseTree_get tree (tag_name (newTag sf)) = Inr (s0 # rest) \<Longrightarrow>
   decodeSection F tree sf v = decodeStruct F (RSection s0) (\<not> IsExported sf) (TStruct gs) v"
  by (simp add: decodeSection_def Let_def)

subsection \<open>Slices of scalars\<close>

lemma decodeElems_scalars:
  assumes "Kind E \<in> {KString, KInt, KUint, KFloat, KBool}"
  shows "decodeElems F (map RString raws) E =
     (case find (\<lambda>x. snd (convertScalar F E x) \<noteq> None) raws of
        None \<Rightarrow> Inr (map (\<lambda>x. fst (convertScalar F E x)) raws)
      | Some x \<Rightarrow> Inl (the (snd (convertScalar F E x))))"
proof (induction raws)
  case Nil
  show ?case by simp
next
  case (Cons x raws)
  have step: "decodeElems F (RString x # rest) E =
     (case convertScalar F E x of
        (sv, Some err) \<Rightarrow> Inl err
      | (sv, None) \<Rightarrow>
          (case decodeElems F rest E of Inl err \<Rightarrow> Inl err | Inr vv \<Rightarrow> Inr (sv # vv)))" for rest
    using assms by (cases E) (simp_all add: convertScalar_def)
  show ?case
    using Cons.IH
    by (cases "convertScalar F E x")
       (auto simp add: step simp del: decodeElems.simps split: option.splits)
qed


subsection \<open>A destination that is not a pointer to a struct\<close>

lemma decode_not_pointer:
  "Kind T \<noteq> KPtr \<Longrightarrow>
   decode F tree (Value T p) = (Value T p, Some (typeError ''<ini.parseTree Value>'' T))"
  by (cases T) (simp_all add: decode_def)


lemma decode_pointer_to_non_struct:
  "Kind S \<noteq> KStruct \<Longrightarrow>
   decode F tree (Value (TPtr S) (VPtr d))
     = (Value (TPtr S) (VPtr d), Some (typeError ''<ini.parseTree Value>'' S))"
  by (simp add: decode_def)

subsection \<open>Integers\<close>

text \<open>
  ParseUint and ParseInt accept digits only and keep within 64 bits, so a destination that
  is 64 bits wide receives the parsed number itself.
\<close>

lemma parseDigits_bound: "parseDigits n cs = Some m \<Longrightarrow> m \<le> maxUint64 \<or> m = n"
  by (induction n cs rule: parseDigits.induct) (auto simp: Let_def split: if_splits)

lemma parseDigits_digits: "parseDigits n cs = Some m \<Longrightarrow> \<forall>c\<in>set cs. isDigit c"
  by (induction n cs rule: parseDigits.induct) (auto simp: Let_def split: if_splits)

lemma ParseUint_bound: "ParseUint x = Some n \<Longrightarrow> n < 2 ^ 64"
proof -
  assume a: "ParseUint x = Some n"
  then have "parseDigits 0 x = Some n" by (auto simp: ParseUint_def split: if_splits)
  from parseDigits_bound [OF this] show ?thesis by (auto simp: maxUint64_def)
qed

lemma ParseUint_digits: "ParseUint x = Some n \<Longrightarrow> x \<noteq> [] \<and> (\<forall>c\<in>set x. isDigit c)"
  by (auto simp: ParseUint_def split: if_splits dest: parseDigits_digits)

lemma ParseInt_bound: "ParseInt x = Some n \<Longrightarrow> - (2 ^ 63) \<le> n \<and> n < 2 ^ 63"
  by (auto simp: ParseInt_def Let_def split: list.splits option.splits if_splits)

lemma wrapInt_64: "bits w = 64 \<Longrightarrow> - (2 ^ 63) \<le> n \<Longrightarrow> n < 2 ^ 63 \<Longrightarrow> wrapInt w n = n"
  by (simp add: wrapInt_def)

lemma wrapUint_64: "bits w = 64 \<Longrightarrow> n < 2 ^ 64 \<Longrightarrow> wrapUint w n = n"
  by (simp add: wrapUint_def)

lemma decodeInt_not_a_number:
  "ParseInt x = None \<Longrightarrow> decodeInt (RString x) ro T v = (v, Some (typeError x (TPtr T)))"
  by (simp add: decodeInt_def)

lemma decodeUint_not_a_number:
  "ParseUint x = None \<Longrightarrow> decodeUint (RString x) ro T v = (v, Some (typeError x (TPtr T)))"
  by (simp add: decodeUint_def)

lemma decodeInt_64:
  "bits w = 64 \<Longrightarrow> ParseInt x = Some n \<Longrightarrow> decodeInt (RString x) False (TInt w) v = (VInt n, None)"
  by (auto simp: decodeInt_def SetInt_def dest!: ParseInt_bound intro!: wrapInt_64)

lemma decodeUint_64:
  "bits w = 64 \<Longrightarrow> ParseUint x = Some n \<Longrightarrow>
   decodeUint (RString x) False (TUint w) v = (VUint n, None)"
  by (auto simp: decodeUint_def SetUint_def dest!: ParseUint_bound intro!: wrapUint_64)

subsection \<open>Fields without a property, and fields with several values\<close>

lemma firstValue_absent: "map_of (props s) n = None \<Longrightarrow> firstValue s n = Inr None"
  by (simp add: firstValue_def section_get_def)


lemma decodeField_absent:
  assumes "map_of (props s) (tag_name (newTag sf)) = None"
    and "Kind (sf_Type sf) \<noteq> KMap"
    and "sf_Name sf = ''ININame'' \<longrightarrow> sf_Type sf \<noteq> TString"
  shows "decodeField F s ro sf v = (v, None)"
  using assms
  by (cases sf; cases "sf_Type sf")
     (simp_all add: decodeField.simps Let_def firstValue_absent section_get_def property_get_def)

lemma decodeField_first_value:
  assumes "sf_Type sf = TInt w" "tag_name (newTag sf) \<noteq> ''-''"
    and "section_get s (tag_name (newTag sf)) = Inr p" "property_get p [] = x # xs"
  shows "decodeField F s ro sf v = decodeInt (RString x) (ro \<or> \<not> IsExported sf) (TInt w) v"
proof -
  from assms(4) have "vals p \<noteq> []" by (auto simp: property_get_def)
  with assms show ?thesis
    by (cases sf) (simp add: decodeField.simps Let_def firstValue_def)
qed

subsection \<open>The origin name of a nested record\<close>

text \<open>
  A nested record bound by the name of its field can only receive, in a field ININame,
  the name it was looked up under: no parse tree gives it another one.
\<close>

lemma origin_name_is_the_lookup_name:
  assumes "decode F tree
      (Value (TPtr (TStruct [plainField ''Database'' (TStruct [plainField ''ININame'' TString])]))
         (VPtr (VStruct [VStruct [VString []]])))
     = (Value T (VPtr (VStruct [VStruct [VString x]])), r)"
  shows "x = [] \<or> x = ''Database''"
proof -
  let ?db = "plainField ''Database'' (TStruct [plainField ''ININame'' TString])"
  have g: "decodeFields F (global tree) False [?db] [VStruct [VString []]]
             = ([VStruct [VString []]], None)"
    by (simp add: decodeField_untouched_kind plainField_def)
  have get: "parseTree_get tree (tag_name (newTag ?db))
             = Inr (filter (\<lambda>s. name s = ''Database'') (sections tree))"
    by (simp add: lookup_defs)
  have st: "decodeStruct F (RSection s0) False (TStruct [plainField ''ININame'' TString])
              (VStruct [VString []]) = (VStruct [VString (name s0)], None)" for s0
    by (simp add: decode_simps lookup_defs decodeString_def SetString_def)
  have ex: "IsExported ?db" by (simp add: lookup_defs)
  have nm: "tag_name (newTag ?db) \<noteq> ''-''" by (simp add: lookup_defs)
  have ty: "sf_Type ?db = TStruct [plainField ''ININame'' TString]" by (simp add: plainField_def)
  show ?thesis
  proof (cases "filter (\<lambda>s. name s = ''Database'') (sections tree)")
    case Nil
    with get have "decodeSection F tree ?db (VStruct [VString []]) = (VStruct [VString []], None)"
      using decodeSection_struct_absent [OF ty] by simp
    with assms g show ?thesis
      by (simp add: decode_struct)
  next
    case (Cons s0 rest)
    have "s0 \<in> set (filter (\<lambda>s. name s = ''Database'') (sections tree))"
      unfolding Cons by simp
    then have n: "name s0 = ''Database''" by simp
    from get Cons have "decodeSection F tree ?db (VStruct [VString []])
        = (VStruct [VString (name s0)], None)"
      using decodeSection_struct_first [OF ty nm, of tree s0 rest F] ex st by simp
    with assms g n show ?thesis
      by (simp add: decode_struct)
  qed
qed

section \<open>Decoding what was encoded\<close>

subsection \<open>Numbers and booleans read back\<close>













lemma scalarValue_isScalar: "scalarValue F fmt T v \<Longrightarrow> isScalar T"
  by (cases T) (auto simp: scalarValue_def isScalar_def)
















lemma sectionName_record:
  assumes rv: "recordValue F fmt n gs ws"
  shows "sectionName n gs ws = n"
proof (cases "find (\<lambda>(sf, v). sf_Name sf = ''ININame'' \<and> sf_Type sf = TString) (zip gs ws)")
  case None
  then show ?thesis by (simp add: sectionName_def originName_def)
next
  case (Some p)
  obtain sf v where p: "p = (sf, v)" by (cases p)
  from Some p have "(sf, v) \<in> set (zip gs ws)" "sf_Name sf = ''ININame'' \<and> sf_Type sf = TString"
    by (auto simp: find_Some_iff in_set_conv_nth)
  moreover from rv have "list_all2 (fieldValue F fmt n) gs ws" by (simp add: recordValue_def)
  ultimately have "v = VString n"
    by (auto simp: list_all2_iff fieldValue_def)
  with Some p show ?thesis by (simp add: sectionName_def originName_def)
qed







lemma fieldValue_not_section: "fieldValue F fmt n sf v \<Longrightarrow> \<not> isSectionField sf"
  by (cases "sf_Type sf")
     (auto simp: fieldValue_def propValue_def scalarValue_def isSectionField_def isScalar_def)








subsection \<open>The encoder's test and other texts\<close>

text \<open>
  TestMarshal of encode_test.go expects, for the record Database of the concrete inputs,
  the six lines below without a newline at the end. The model of Marshal gives them. The
  texts of the record with a field of every shape and of the wildcard collection follow,
  with the trees they are written from and read back into.
\<close>

lemma FormatUint_small:
  "FormatUint 10 = ''10''" "FormatUint 20 = ''20''" "FormatUint 80 = ''80''" "FormatUint 443 = ''443''"
  "FormatUint 143 = ''143''" "FormatUint 1234 = ''1234''"
  by (simp_all add: FormatUint.simps char_of_def bit_Suc_0_iff)

lemma formatCenti_1234: "formatCenti 1234 = ''12.34''"
  by (simp add: formatCenti_def FormatUint.simps char_of_def bit_Suc_0_iff)


lemma Marshal_reproduces_its_test:
  "Marshal formatCenti (TStruct databaseT) (VStruct databaseX)
   = joinLines [''[Database]'', ''Server=192.0.2.62'', ''Port=143'', ''Encrypted=false'',
                ''Size=1234'', ''Value=12.34'']"
  by (simp add: encode_defs FormatUint_small formatCenti_1234 input_defs lookup_defs Let_def)







section \<open>The loops, field by field\<close>

subsection \<open>The loop of decodeStruct up to a field\<close>

lemma decodeFields_append:
  "length vs1 = length fs1 \<Longrightarrow>
   decodeFields F s ro (fs1 @ fs2) (vs1 @ vs2) =
     (case decodeFields F s ro fs1 vs1 of
        (ws, Some e) \<Rightarrow> (ws @ vs2, Some e)
      | (ws, None) \<Rightarrow> (case decodeFields F s ro fs2 vs2 of (ws2, r) \<Rightarrow> (ws @ ws2, r)))"
proof (induction fs1 arbitrary: vs1)
  case Nil
  then show ?case by (simp split: prod.splits)
next
  case (Cons sf fs1)
  then obtain v vs0 where vs: "vs1 = v # vs0" by (cases vs1) auto
  with Cons.prems have l: "length vs0 = length fs1" by simp
  show ?case
    by (simp add: vs Cons.IH [OF l] split: prod.splits option.splits)
qed

lemma decodeFields_length:
  "length vs = length fs \<Longrightarrow> length (fst (decodeFields F s ro fs vs)) = length vs"
proof (induction fs arbitrary: vs)
  case Nil
  then show ?case by simp
next
  case (Cons sf fs)
  then obtain v vs0 where vs: "vs = v # vs0" by (cases vs) auto
  with Cons.prems have l: "length vs0 = length fs" by simp
  from Cons.IH [OF l] show ?case
    by (auto simp: vs split: prod.splits option.splits)
qed

lemma decodeFields_step:
  assumes len: "length vs = length fs" and j: "j < length fs"
    and before: "decodeFields F s ro (take j fs) (take j vs) = (ws, None)"
    and step: "decodeField F s ro (fs ! j) (vs ! j) = (v', r)"
  shows "\<exists>vs' r'. decodeFields F s ro fs vs = (vs', r') \<and> length vs' = length vs \<and> vs' ! j = v'
           \<and> (r \<noteq> None \<longrightarrow> r' = r)"
proof -
  have fs: "fs = take j fs @ fs ! j # drop (Suc j) fs"
    using j by (simp add: id_take_nth_drop)
  have vs: "vs = take j vs @ vs ! j # drop (Suc j) vs"
    using j len by (simp add: id_take_nth_drop)
  have l: "length (take j vs) = length (take j fs)" using len by simp
  from decodeFields_length [OF l, of F s ro] before have lw: "length ws = j"
    using j len by simp
  obtain vs2 r2 where rest: "decodeFields F s ro (drop (Suc j) fs) (drop (Suc j) vs) = (vs2, r2)"
    by (cases "decodeFields F s ro (drop (Suc j) fs) (drop (Suc j) vs)")
  have l2: "length (drop (Suc j) vs) = length (drop (Suc j) fs)" using len by simp
  from decodeFields_length [OF l2, of F s ro] rest have lv2: "length vs2 = length vs - Suc j"
    by simp
  have "decodeFields F s ro (take j fs @ fs ! j # drop (Suc j) fs)
          (take j vs @ vs ! j # drop (Suc j) vs)
        = (case r of Some e \<Rightarrow> (ws @ v' # drop (Suc j) vs, Some e)
           | None \<Rightarrow> (ws @ v' # vs2, r2))"
    by (simp add: decodeFields_append [OF l] before step rest split: option.splits)
  with fs vs have d: "decodeFields F s ro fs vs
        = (case r of Some e \<Rightarrow> (ws @ v' # drop (Suc j) vs, Some e)
           | None \<Rightarrow> (ws @ v' # vs2, r2))"
    by simp
  show ?thesis
  proof (cases r)
    case None
    with d lw lv2 j len show ?thesis by (simp add: nth_append)
  next
    case (Some e)
    with d lw j len show ?thesis by (simp add: nth_append)
  qed
qed

lemma decodeFields_cong:
  "length fs' = length fs \<Longrightarrow>
   (\<forall>k<length fs. \<forall>v. decodeField F s ro (fs' ! k) v = decodeField F s ro (fs ! k) v) \<Longrightarrow>
   decodeFields F s ro fs' vs = decodeFields F s ro fs vs"
proof (induction fs arbitrary: fs' vs)
  case Nil
  then show ?case by simp
next
  case (Cons sf fs)
  then obtain sf' fs0 where f: "fs' = sf' # fs0" by (cases fs') auto
  from Cons.prems f have h: "\<forall>v. decodeField F s ro sf' v = decodeField F s ro sf v" by auto
  from Cons.prems f have t:
    "\<forall>k<length fs. \<forall>v. decodeField F s ro (fs0 ! k) v = decodeField F s ro (fs ! k) v"
    by auto
  from Cons.prems f have l: "length fs0 = length fs" by simp
  show ?case
  proof (cases vs)
    case Nil
    with f show ?thesis by simp
  next
    case (Cons v vs0)
    with f h Cons.IH [OF l t, of vs0] show ?thesis by simp
  qed
qed

lemma decodeField_origin_name:
  "sf_Name sf = ''ININame'' \<Longrightarrow> sf_Type sf = TString \<Longrightarrow> tag_name (newTag sf) \<noteq> ''-'' \<Longrightarrow>
   decodeField F s ro sf v =
     (if ro \<or> \<not> IsExported sf then (v, Some Panic) else (VString (name s), None))"
  by (cases sf) (simp add: decodeField.simps Let_def decodeString_def SetString_def)

lemma decodeField_other_kind:
  "Kind T \<noteq> KString \<Longrightarrow>
   tag_name (newTag (StructField n pk tg T)) = tag_name (newTag (StructField n' pk tg' T)) \<Longrightarrow>
   decodeField F s ro (StructField n pk tg T) v = decodeField F s ro (StructField n' pk tg' T) v"
  by (cases T) (simp_all add: decodeField.simps Let_def IsExported_def split: sum.splits option.splits)

subsection \<open>The loop of decode up to a field\<close>







subsection \<open>The decoders and the conversion rules of the specification\<close>

lemma convert_spec: "specConversion F E x = Some y \<Longrightarrow> convertScalar F E x = (y, None)"
proof (cases E)
  case (TInt w)
  assume a: "specConversion F E x = Some y"
  with TInt obtain n where p: "ParseInt x = Some n"
    and r: "- (2 ^ (bits w - 1)) \<le> n" "n < 2 ^ (bits w - 1)" and y: "y = VInt n"
    by (auto simp: specConversion_def split: option.splits if_splits)
  have "wrapInt w n = n" using r by (cases w) (simp_all add: wrapInt_def)
  with TInt p y show ?thesis
    by (simp add: convertScalar_def decodeInt_def SetInt_def)
next
  case (TUint w)
  assume a: "specConversion F E x = Some y"
  with TUint obtain n where p: "ParseUint x = Some n" and r: "n < 2 ^ bits w" and y: "y = VUint n"
    by (auto simp: specConversion_def split: option.splits if_splits)
  have "wrapUint w n = n" using r by (simp add: wrapUint_def)
  with TUint p y show ?thesis
    by (simp add: convertScalar_def decodeUint_def SetUint_def)
next
  case (TFloat w)
  assume a: "specConversion F E x = Some y"
  with TFloat show ?thesis
    by (cases w)
       (auto simp: specConversion_def convertScalar_def decodeFloat_def SetFloat_def
          split: option.splits)
next
  case TBool
  assume a: "specConversion F E x = Some y"
  with TBool show ?thesis
    by (auto simp: specConversion_def convertScalar_def decodeBool_def SetBool_def
          split: option.splits)
next
  case TString
  assume a: "specConversion F E x = Some y"
  with TString show ?thesis
    by (auto simp: specConversion_def convertScalar_def decodeString_def SetString_def)
qed (auto simp: specConversion_def)

lemma convert_unparsable:
  "unparsable F E x \<Longrightarrow> convertScalar F E x = (zero E, Some (typeError x (TPtr E)))"
  by (cases E)
     (auto simp: unparsable_def convertScalar_def decodeInt_def decodeUint_def decodeFloat_def
        decodeBool_def)

lemma decodeSlice_scalars_ro:
  assumes "Kind E \<in> {KString, KInt, KUint, KFloat, KBool}"
  shows "decodeSlice F (RStrings raws) ro (TSlice E) v =
     (case find (\<lambda>x. snd (convertScalar F E x) \<noteq> None) raws of
        None \<Rightarrow> if ro then (v, Some Panic)
                else (VSlice (map (\<lambda>x. fst (convertScalar F E x)) raws), None)
      | Some x \<Rightarrow> (v, snd (convertScalar F E x)))"
proof -
  have k: "Kind E \<in> {KString, KInt, KUint, KStruct, KFloat, KBool}" using assms by auto
  have some: "snd (convertScalar F E x) = Some (the (snd (convertScalar F E x)))"
    if "find (\<lambda>x. snd (convertScalar F E x) \<noteq> None) raws = Some x" for x
    using that by (auto simp: find_Some_iff)
  show ?thesis
    using k some
    by (simp add: decodeSlice.simps decodeElems_scalars [OF assms] del: insert_iff split: option.splits)
qed

lemma decodeField_slice:
  assumes "sf_Type sf = TSlice E" "Kind E \<in> {KString, KInt, KUint, KFloat, KBool}"
    and "tag_name (newTag sf) \<noteq> ''-''"
    and "section_get s (tag_name (newTag sf)) = Inr p" "property_get p [] = raws"
  shows "decodeField F s ro sf v =
     (if raws = [] then (v, None)
      else decodeSlice F (RStrings raws) (ro \<or> \<not> IsExported sf) (TSlice E) v)"
proof -
  from assms(2) have "Kind E \<noteq> KStruct" by auto
  with assms show ?thesis
    by (cases sf) (simp add: decodeField.simps Let_def)
qed

lemma find_first:
  "i < length xs \<Longrightarrow> \<forall>k<i. \<not> P (xs ! k) \<Longrightarrow> P (xs ! i) \<Longrightarrow> find P xs = Some (xs ! i)"
  by (auto simp: find_Some_iff)

section \<open>The claims\<close>

subsection \<open>C1: decoding what was encoded\<close>




subsection \<open>C2: a key repeated in a section, bound to a field that is not a collection\<close>

text \<open>
  C2. The claim: when a section holds the same property key N times (N at least 2),
  decoding into a destination field that is not a collection returns a type-mismatch
  error and binds none of the N values. The doc comment of Unmarshal says the same ("If
  the destination struct field is not a slice type, an error is returned"). The code takes
  \<open>vals[0]\<close>: with the key Port given twice, as 143 and as 993, an int field Port is
  bound to 143 and no error is returned.
\<close>

theorem C2_repeated_key_binds_first_value:
  "decodeStruct F
     (RSection \<lparr>name = ''Database'', props = [plainProperty ''Port'' [''143'', ''993'']]\<rparr>)
     False (TStruct [plainField ''Port'' (TInt Native)]) (VStruct [VInt 0])
   = (VStruct [VInt 143], None)"
  by (simp add: decode_simps scalar_defs lookup_defs)

subsection \<open>C4: a map-shaped field whose elements are collections\<close>

text \<open>
  C4. The claim: decoding a map-shaped field builds one entry per map-key of the
  property, and when the element type is itself a collection the entry receives the
  whole sequence of raw values of that key. The loop of decodeMap has the branch for it
  (\<open>if rv.Type().Elem().Kind() == reflect.Slice\<close>), but the switch before the loop has
  no case for the slice kind, so a map of slices ends in the default case: the call
  returns an UnmarshalTypeError, which carries the type of the map, and the destination
  stays as it was. decodeStruct hands the error on for a field Size of that type.
\<close>

theorem C4_map_of_slices_is_a_type_error:
  "decodeMap F (RProperty \<lparr>vals = [(''small'', [''1'', ''2''])]\<rparr>) False
     (TMap TString (TSlice TString)) VNil
   = (VNil, Some (typeError ''<ini.property Value>'' (TMap TString (TSlice TString))))
   \<and> decodeStruct F
       (RSection \<lparr>name = [], props = [(''Size'', \<lparr>vals = [(''small'', [''1'', ''2''])]\<rparr>)]\<rparr>)
       False (TStruct [plainField ''Size'' (TMap TString (TSlice TString))]) (VStruct [VNil])
     = (VStruct [VNil],
        Some (typeError ''<ini.property Value>'' (TMap TString (TSlice TString))))"
  by (simp add: decode_simps lookup_defs)

subsection \<open>C5: a field without a matching property\<close>

text \<open>
  C5. The claim: a field of any supported shape that has no matching property or section
  is left at the zero value of its type, and no error is returned. The slice case and
  the scalar cases of decodeStruct skip the field when the property is empty; the map
  case does not, and decodeMap stores a fresh empty map: a nil map field Size is no
  longer nil after decoding a tree that does not mention Size.
\<close>

theorem C5_absent_map_property_stores_empty_map:
  "decode F \<lparr>global = \<lparr>name = [], props = []\<rparr>, sections = []\<rparr>
     (Value (TPtr (TStruct [plainField ''Size'' (TMap TString (TInt Native))]))
        (VPtr (VStruct [zero (TMap TString (TInt Native))])))
   = (Value (TPtr (TStruct [plainField ''Size'' (TMap TString (TInt Native))]))
        (VPtr (VStruct [VMap []])), None)
   \<and> VMap [] \<noteq> zero (TMap TString (TInt Native))"
  by (simp add: decode_simps lookup_defs)

subsection \<open>C6: a destination that is not a pointer to a struct\<close>

text \<open>
  C6. The claim: for every input that is not a pointer, or whose pointee is not a
  struct, decode returns an UnmarshalTypeError before binding any field. The doc comment
  of Unmarshal includes nil ("If v is nil or not a pointer to a struct, Unmarshal returns an
  UnmarshalTypeError"). For nil, \<open>reflect.ValueOf\<close> gives the zero Value and the first
  \<open>rv.Type()\<close> panics; for a nil pointer, such as a nil \<open>*int\<close>, \<open>reflect.Indirect\<close>
  gives the zero Value and the second \<open>rv.Type()\<close> panics.
\<close>

theorem C6_nil_destination_panics:
  "decode F tree ZeroValue = (ZeroValue, Some Panic)
   \<and> decode F tree (Value (TPtr (TInt Native)) VNil)
       = (Value (TPtr (TInt Native)) VNil, Some Panic)"
  by (simp add: decode_def)

subsection \<open>C8: integers out of the range of their destination\<close>

text \<open>
  C8. The claim: for an integer or unsigned-integer destination, text that is not a
  base-10 number and a number outside the range of the destination type both end in a
  typed conversion failure, never in a silently truncated store. decodeInt and decodeUint
  parse with a bit size of 64 whatever the width of the destination, and \<open>SetInt\<close> and
  \<open>SetUint\<close> keep the low bits: 300 is stored in an int8 as 44 and 256 in a uint8 as 0,
  without an error.
\<close>

theorem C8_narrow_integers_are_truncated:
  "decodeInt (RString ''300'') False (TInt B8) (VInt 0) = (VInt 44, None)
   \<and> decodeUint (RString ''256'') False (TUint B8) (VUint 7) = (VUint 0, None)"
  by (simp add: scalar_defs)

subsection \<open>C3: a field that is a slice of scalars\<close>

text \<open>
  C3, as amended. Field \<open>j\<close> of a record is a slice of strings, integers, unsigned
  integers, floats or booleans, its resolved name is not the excluding name \<open>-\<close>, the
  section gives the property \<open>p\<close> for that name, \<open>raws\<close> is the sequence of raw
  values of \<open>p\<close> under the empty map-key, and decodeStruct binds the fields before
  \<open>j\<close> without error. When \<open>raws\<close> is empty the field is left as it is. When
  \<open>raws\<close> holds N values, N at least 1, and each of them converts by the rules of
  section 4.5, decodeStruct stores a slice of exactly N elements, element \<open>i\<close> being the
  conversion of the \<open>i\<close>-th raw value (a single value gives a slice of one element),
  provided the field can be set: it is exported, and the record was not reached through an
  unexported field. When the field cannot be set decodeStruct panics and leaves it as it is.
  When a value that is no literal of the element kind follows values that convert,
  decodeStruct returns the typed error of that value and leaves the field as it is.
\<close>

theorem C3_slice_of_scalars:
  assumes len: "length vs = length fs" and j: "j < length fs"
    and ty: "sf_Type (fs ! j) = TSlice E"
    and el: "Kind E \<in> {KString, KInt, KUint, KFloat, KBool}"
    and nm: "tag_name (newTag (fs ! j)) \<noteq> ''-''"
    and pr: "section_get s (tag_name (newTag (fs ! j))) = Inr p"
    and rw: "property_get p [] = raws"
    and before: "decodeStruct F (RSection s) ro (TStruct (take j fs)) (VStruct (take j vs))
                   = (VStruct ws, None)"
  shows "\<exists>vs' r. decodeStruct F (RSection s) ro (TStruct fs) (VStruct vs) = (VStruct vs', r)
      \<and> length vs' = length vs
      \<and> (raws = [] \<longrightarrow> vs' ! j = vs ! j)
      \<and> (raws \<noteq> [] \<and> (\<forall>x\<in>set raws. specConversion F E x \<noteq> None) \<longrightarrow>
           (if ro \<or> \<not> IsExported (fs ! j) then vs' ! j = vs ! j \<and> r = Some Panic
            else \<exists>vv. vs' ! j = VSlice vv \<and> length vv = length raws
                   \<and> (\<forall>i<length raws. specConversion F E (raws ! i) = Some (vv ! i))))
      \<and> (\<forall>i<length raws.
            (\<forall>k<i. specConversion F E (raws ! k) \<noteq> None) \<and> unparsable F E (raws ! i) \<longrightarrow>
            vs' ! j = vs ! j \<and> r = Some (typeError (raws ! i) (TPtr E)))"
proof -
  let ?ro = "ro \<or> \<not> IsExported (fs ! j)"
  let ?bad = "\<lambda>x. snd (convertScalar F E x) \<noteq> None"
  from before have b: "decodeFields F s ro (take j fs) (take j vs) = (ws, None)"
    by (auto simp: decodeStruct_struct split: prod.splits)
  obtain v' r0 where step: "decodeField F s ro (fs ! j) (vs ! j) = (v', r0)"
    by (cases "decodeField F s ro (fs ! j) (vs ! j)")
  from decodeFields_step [OF len j b step] obtain vs' r where
    d: "decodeFields F s ro fs vs = (vs', r)" and lv: "length vs' = length vs"
    and vj: "vs' ! j = v'" and rr: "r0 \<noteq> None \<longrightarrow> r = r0"
    by blast
  have f: "decodeField F s ro (fs ! j) (vs ! j) =
     (if raws = [] then (vs ! j, None)
      else decodeSlice F (RStrings raws) ?ro (TSlice E) (vs ! j))"
    by (rule decodeField_slice [OF ty el nm pr rw])
  have sl: "decodeSlice F (RStrings raws) ?ro (TSlice E) (vs ! j) =
     (case find ?bad raws of
        None \<Rightarrow> if ?ro then (vs ! j, Some Panic)
                else (VSlice (map (\<lambda>x. fst (convertScalar F E x)) raws), None)
      | Some x \<Rightarrow> (vs ! j, snd (convertScalar F E x)))"
    by (rule decodeSlice_scalars_ro [OF el])
  have empty: "vs' ! j = vs ! j" if "raws = []"
    using that f step vj by simp
  have good: "if ?ro then vs' ! j = vs ! j \<and> r = Some Panic
            else \<exists>vv. vs' ! j = VSlice vv \<and> length vv = length raws
                   \<and> (\<forall>i<length raws. specConversion F E (raws ! i) = Some (vv ! i))"
    if a: "raws \<noteq> [] \<and> (\<forall>x\<in>set raws. specConversion F E x \<noteq> None)"
  proof -
    have c: "convertScalar F E x = (the (specConversion F E x), None)" if "x \<in> set raws" for x
      using a that by (auto intro: convert_spec)
    then have nb: "find ?bad raws = None" by (simp add: find_None_iff)
    have m: "map (\<lambda>x. fst (convertScalar F E x)) raws = map (\<lambda>x. the (specConversion F E x)) raws"
      using c by simp
    show ?thesis
    proof (cases ?ro)
      case True
      with a f sl nb step have "v' = vs ! j" "r0 = Some Panic" by auto
      with True vj rr show ?thesis by simp
    next
      case False
      with a f sl nb step m have "v' = VSlice (map (\<lambda>x. the (specConversion F E x)) raws)"
        by auto
      with vj have e: "vs' ! j = VSlice (map (\<lambda>x. the (specConversion F E x)) raws)" by simp
      have "\<forall>i<length raws. specConversion F E (raws ! i)
              = Some (map (\<lambda>x. the (specConversion F E x)) raws ! i)"
        using a by auto
      with e False show ?thesis by simp
    qed
  qed
  have bad: "vs' ! j = vs ! j \<and> r = Some (typeError (raws ! i) (TPtr E))"
    if i: "i < length raws"
      and a: "(\<forall>k<i. specConversion F E (raws ! k) \<noteq> None) \<and> unparsable F E (raws ! i)" for i
  proof -
    have "\<forall>k<i. \<not> ?bad (raws ! k)"
    proof (intro allI impI)
      fix k assume "k < i"
      with a obtain y where "specConversion F E (raws ! k) = Some y" by auto
      from convert_spec [OF this] show "\<not> ?bad (raws ! k)" by simp
    qed
    moreover have ci: "convertScalar F E (raws ! i) = (zero E, Some (typeError (raws ! i) (TPtr E)))"
      using a by (simp add: convert_unparsable)
    ultimately have "find ?bad raws = Some (raws ! i)"
      using i by (intro find_first) simp_all
    note fb = this
    from i have "raws \<noteq> []" by auto
    with fb have "v' = vs ! j" "r0 = Some (typeError (raws ! i) (TPtr E))"
      using f sl step ci by auto
    with vj rr show ?thesis by simp
  qed
  have ds: "decodeStruct F (RSection s) ro (TStruct fs) (VStruct vs) = (VStruct vs', r)"
    using d by (simp add: decodeStruct_struct)
  show ?thesis
    using ds lv empty good bad by (intro exI [of _ vs'] exI [of _ r]) blast
qed

text \<open>
  The theorem at the record Service, whose second field is a slice of 16-bit integers, and
  a section that gives Ports twice: every hypothesis holds, and the field becomes the slice
  of 80 and 443, the conversions of the two raw values in their order.
\<close>

theorem C3_witness:
  "length [VString [], VNil :: nat govalue] = length serviceFields
   \<and> 1 < length serviceFields
   \<and> sf_Type (serviceFields ! 1) = TSlice (TInt B16)
   \<and> Kind (TInt B16) \<in> {KString, KInt, KUint, KFloat, KBool}
   \<and> tag_name (newTag (serviceFields ! 1)) \<noteq> ''-''
   \<and> section_get serviceSection (tag_name (newTag (serviceFields ! 1)))
       = Inr (snd (plainProperty ''Ports'' [''80'', ''443'']))
   \<and> property_get (snd (plainProperty ''Ports'' [''80'', ''443''])) [] = [''80'', ''443'']
   \<and> decodeStruct noFloats (RSection serviceSection) False (TStruct (take 1 serviceFields))
         (VStruct (take 1 [VString [], VNil]))
       = (VStruct [VString ''web''], None)
   \<and> specConversion noFloats (TInt B16) ''80'' = Some (VInt 80)
   \<and> specConversion noFloats (TInt B16) ''443'' = Some (VInt 443)
   \<and> decodeStruct noFloats (RSection serviceSection) False (TStruct serviceFields)
         (VStruct [VString [], VNil])
       = (VStruct [VString ''web'', VSlice [VInt 80, VInt 443]], None)
   \<and> (\<exists>vv. [VString ''web'', VSlice [VInt 80, VInt 443]] ! 1 = VSlice vv
          \<and> length vv = length [''80'', ''443'']
          \<and> (\<forall>i<length [''80'', ''443''].
                specConversion noFloats (TInt B16) ([''80'', ''443''] ! i) = Some (vv ! i)))"
proof -
  have len: "length [VString [], VNil :: nat govalue] = length serviceFields"
    and j: "1 < length serviceFields"
    and ty: "sf_Type (serviceFields ! 1) = TSlice (TInt B16)"
    and nm: "tag_name (newTag (serviceFields ! 1)) \<noteq> ''-''"
    by (simp_all add: service_defs lookup_defs)
  have el: "Kind (TInt B16) \<in> {KString, KInt, KUint, KFloat, KBool}"
    by simp
  have pr: "section_get serviceSection (tag_name (newTag (serviceFields ! 1)))
       = Inr (snd (plainProperty ''Ports'' [''80'', ''443'']))"
    by (simp add: service_defs lookup_defs)
  have rw: "property_get (snd (plainProperty ''Ports'' [''80'', ''443''])) [] = [''80'', ''443'']"
    by (simp add: lookup_defs)
  have before: "decodeStruct noFloats (RSection serviceSection) False
         (TStruct (take 1 serviceFields)) (VStruct (take 1 [VString [], VNil]))
       = (VStruct [VString ''web''], None)"
    by (simp add: service_defs decode_simps scalar_defs lookup_defs)
  have c80: "specConversion noFloats (TInt B16) ''80'' = Some (VInt 80)"
    and c443: "specConversion noFloats (TInt B16) ''443'' = Some (VInt 443)"
    by (simp_all add: specConversion_def scalar_defs)
  then have conv: "\<forall>x\<in>set [''80'', ''443'']. specConversion noFloats (TInt B16) x \<noteq> None"
    by simp
  have d: "decodeStruct noFloats (RSection serviceSection) False (TStruct serviceFields)
         (VStruct [VString [], VNil])
       = (VStruct [VString ''web'', VSlice [VInt 80, VInt 443]], None)"
    by (simp add: service_defs decode_simps scalar_defs lookup_defs)
  have ex: "\<not> (False \<or> \<not> IsExported (serviceFields ! 1))"
    by (simp add: service_defs lookup_defs)
  from C3_slice_of_scalars [OF len j ty el nm pr rw before] d conv ex
  have c: "\<exists>vv. [VString ''web'', VSlice [VInt 80, VInt 443]] ! 1 = VSlice vv
          \<and> length vv = length [''80'', ''443'']
          \<and> (\<forall>i<length [''80'', ''443''].
                specConversion noFloats (TInt B16) ([''80'', ''443''] ! i) = Some (vv ! i))"
    by auto
  show ?thesis
    by (intro conjI; (rule len j ty el nm pr rw before c80 c443 d c))
qed

text \<open>
  C3 as stated fails: a slice field with two values that is not exported makes decodeStruct
  panic; one excluded by its tag is skipped; one of whose values is not a number is left as
  it is and the error is returned; and one that comes after a failing field is not reached.
  In each case the field is still nil.
\<close>

theorem C3_counterexample:
  "decodeStruct noFloats
     (RSection \<lparr>name = ''Service'', props = [plainProperty ''ports'' [''80'', ''443'']]\<rparr>)
     False (TStruct [hiddenPorts]) (VStruct [VNil])
   = (VStruct [VNil], Some Panic)
   \<and> decodeStruct noFloats
       (RSection \<lparr>name = ''Service'', props = [plainProperty ''-'' [''80'', ''443'']]\<rparr>)
       False (TStruct [excludedPorts]) (VStruct [VNil])
     = (VStruct [VNil], None)
   \<and> decodeStruct noFloats
       (RSection \<lparr>name = ''Service'', props = [plainProperty ''Ports'' [''80'', ''http'']]\<rparr>)
       False (TStruct [plainField ''Ports'' (TSlice (TInt Native))]) (VStruct [VNil])
     = (VStruct [VNil], Some (typeError ''http'' (TPtr (TInt Native))))
   \<and> decodeStruct noFloats
       (RSection \<lparr>name = ''Service'',
                  props = [plainProperty ''Port'' [''abc''], plainProperty ''Ports'' [''80'', ''443'']]\<rparr>)
       False
       (TStruct [plainField ''Port'' (TInt Native), plainField ''Ports'' (TSlice (TInt Native))])
       (VStruct [VInt 0, VNil])
     = (VStruct [VInt 0, VNil], Some (typeError ''abc'' (TPtr (TInt Native))))
   \<and> (VNil :: nat govalue) \<noteq> VSlice [VInt 80, VInt 443]"
  by (simp add: service_defs decode_simps scalar_defs lookup_defs)

subsection \<open>C7: a top-level field that is a nested record\<close>




subsection \<open>C9: the first failing field\<close>

text \<open>
  C9, as amended. decodeStruct processes the fields in declared order and stops at the
  first failing field \<open>i\<close>: the fields before \<open>i\<close> hold the results of their own
  steps, and field \<open>i\<close> and every field after it are what they were before the call.
  decode runs two loops over the fields, the global properties first and the sections
  second. When the first loop fails at field \<open>i\<close>, the same holds. When the second loop
  fails at field \<open>i\<close>, every field after \<open>i\<close> is what the completed first loop left,
  which for a nested record and for a collection of records is what it was before the
  call.
\<close>

theorem C9_stops_at_first_failing_field:
  assumes len: "length vs = length fs"
  shows
    "(decodeStruct F (RSection s) ro (TStruct fs) (VStruct vs) = (d', Some e) \<longrightarrow>
        (\<exists>i vs'. i < length fs \<and> d' = VStruct vs' \<and> length vs' = length vs
           \<and> decodeField F s ro (fs ! i) (vs ! i) = (vs ! i, Some e)
           \<and> (\<forall>j<i. decodeField F s ro (fs ! j) (vs ! j) = (vs' ! j, None))
           \<and> (\<forall>j. i \<le> j \<and> j < length vs \<longrightarrow> vs' ! j = vs ! j)))
   \<and> (decode F tree (Value (TPtr (TStruct fs)) (VPtr (VStruct vs))) = (rv', Some e) \<longrightarrow>
        (\<exists>vs'. rv' = Value (TPtr (TStruct fs)) (VPtr (VStruct vs')) \<and> length vs' = length vs
           \<and> ((\<exists>i<length fs.
                   decodeField F (global tree) False (fs ! i) (vs ! i) = (vs ! i, Some e)
                   \<and> (\<forall>j<i. decodeField F (global tree) False (fs ! j) (vs ! j) = (vs' ! j, None))
                   \<and> (\<forall>j. i \<le> j \<and> j < length vs \<longrightarrow> vs' ! j = vs ! j))
              \<or> (\<exists>vs1 i. decodeFields F (global tree) False fs vs = (vs1, None)
                   \<and> i < length fs
                   \<and> decodeSection F tree (fs ! i) (vs1 ! i) = (vs' ! i, Some e)
                   \<and> (\<forall>j<i. decodeSection F tree (fs ! j) (vs1 ! j) = (vs' ! j, None))
                   \<and> (\<forall>j. i < j \<and> j < length vs \<longrightarrow>
                         vs' ! j = vs1 ! j
                         \<and> (Kind (sf_Type (fs ! j)) = KStruct
                              \<or> (\<exists>E. sf_Type (fs ! j) = TSlice E \<and> Kind E = KStruct)
                            \<longrightarrow> vs' ! j = vs ! j))))))"
proof (intro conjI impI)
  assume a: "decodeStruct F (RSection s) ro (TStruct fs) (VStruct vs) = (d', Some e)"
  then obtain vs' where r: "decodeFields F s ro fs vs = (vs', Some e)" and d: "d' = VStruct vs'"
    by (auto simp: decodeStruct_struct split: prod.splits)
  from decodeFields_err [OF r len] obtain i where i:
    "i < length fs" "length vs' = length vs"
    "decodeField F s ro (fs ! i) (vs ! i) = (vs ! i, Some e)"
    "\<forall>j<i. decodeField F s ro (fs ! j) (vs ! j) = (vs' ! j, None)"
    "\<forall>j. i \<le> j \<and> j < length vs \<longrightarrow> vs' ! j = vs ! j"
    by blast
  show "\<exists>i vs'. i < length fs \<and> d' = VStruct vs' \<and> length vs' = length vs
           \<and> decodeField F s ro (fs ! i) (vs ! i) = (vs ! i, Some e)
           \<and> (\<forall>j<i. decodeField F s ro (fs ! j) (vs ! j) = (vs' ! j, None))
           \<and> (\<forall>j. i \<le> j \<and> j < length vs \<longrightarrow> vs' ! j = vs ! j)"
    by (rule exI [of _ i], rule exI [of _ vs'], intro conjI; (fact | rule d))
next
  assume a: "decode F tree (Value (TPtr (TStruct fs)) (VPtr (VStruct vs))) = (rv', Some e)"
  obtain vs1 r1 where g: "decodeFields F (global tree) False fs vs = (vs1, r1)"
    by (cases "decodeFields F (global tree) False fs vs")
  let ?concl = "\<exists>vs'. rv' = Value (TPtr (TStruct fs)) (VPtr (VStruct vs')) \<and> length vs' = length vs
           \<and> ((\<exists>i<length fs.
                   decodeField F (global tree) False (fs ! i) (vs ! i) = (vs ! i, Some e)
                   \<and> (\<forall>j<i. decodeField F (global tree) False (fs ! j) (vs ! j) = (vs' ! j, None))
                   \<and> (\<forall>j. i \<le> j \<and> j < length vs \<longrightarrow> vs' ! j = vs ! j))
              \<or> (\<exists>vs1 i. decodeFields F (global tree) False fs vs = (vs1, None)
                   \<and> i < length fs
                   \<and> decodeSection F tree (fs ! i) (vs1 ! i) = (vs' ! i, Some e)
                   \<and> (\<forall>j<i. decodeSection F tree (fs ! j) (vs1 ! j) = (vs' ! j, None))
                   \<and> (\<forall>j. i < j \<and> j < length vs \<longrightarrow>
                         vs' ! j = vs1 ! j
                         \<and> (Kind (sf_Type (fs ! j)) = KStruct
                              \<or> (\<exists>E. sf_Type (fs ! j) = TSlice E \<and> Kind E = KStruct)
                            \<longrightarrow> vs' ! j = vs ! j))))"
  show ?concl
  proof (cases r1)
    case (Some e1)
    with a g have rv: "rv' = Value (TPtr (TStruct fs)) (VPtr (VStruct vs1))" and e1: "e1 = e"
      by (auto simp: decode_struct)
    from decodeFields_err [OF g [unfolded Some e1] len] obtain i where i: "i < length fs"
      "length vs1 = length vs"
      "decodeField F (global tree) False (fs ! i) (vs ! i) = (vs ! i, Some e)"
      "\<forall>j<i. decodeField F (global tree) False (fs ! j) (vs ! j) = (vs1 ! j, None)"
      "\<forall>j. i \<le> j \<and> j < length vs \<longrightarrow> vs1 ! j = vs ! j"
      by blast
    have "\<exists>i<length fs.
                   decodeField F (global tree) False (fs ! i) (vs ! i) = (vs ! i, Some e)
                   \<and> (\<forall>j<i. decodeField F (global tree) False (fs ! j) (vs ! j) = (vs1 ! j, None))
                   \<and> (\<forall>j. i \<le> j \<and> j < length vs \<longrightarrow> vs1 ! j = vs ! j)"
      by (rule exI [of _ i], intro conjI; fact)
    note A = this
    show ?thesis
      by (rule exI [of _ vs1], intro conjI disjI1; (rule rv | rule i(2) | rule A))
  next
    case None
    with a g obtain vs' where
      r: "decodeSections F tree fs vs1 = (vs', Some e)" and
      rv: "rv' = Value (TPtr (TStruct fs)) (VPtr (VStruct vs'))"
      by (auto simp: decode_struct split: prod.splits)
    from decodeFields_ok [OF g [unfolded None] len] have
      l1: "length vs1 = length vs" and
      g1: "\<forall>j<length fs. decodeField F (global tree) False (fs ! j) (vs ! j) = (vs1 ! j, None)"
      by auto
    from l1 len have len1: "length vs1 = length fs" by simp
    from decodeSections_err [OF r len1] obtain i where i: "i < length fs"
      "length vs' = length vs1"
      "decodeSection F tree (fs ! i) (vs1 ! i) = (vs' ! i, Some e)"
      "\<forall>j<i. decodeSection F tree (fs ! j) (vs1 ! j) = (vs' ! j, None)"
      "\<forall>j. i < j \<and> j < length vs1 \<longrightarrow> vs' ! j = vs1 ! j"
      by blast
    have g': "decodeFields F (global tree) False fs vs = (vs1, None)"
      using g None by simp
    have frame: "\<forall>j. i < j \<and> j < length vs \<longrightarrow>
                         vs' ! j = vs1 ! j
                         \<and> (Kind (sf_Type (fs ! j)) = KStruct
                              \<or> (\<exists>E. sf_Type (fs ! j) = TSlice E \<and> Kind E = KStruct)
                            \<longrightarrow> vs' ! j = vs ! j)"
    proof (intro allI impI conjI)
      fix j assume j: "i < j \<and> j < length vs"
      show "vs' ! j = vs1 ! j" using i j l1 by simp
      assume k: "Kind (sf_Type (fs ! j)) = KStruct
                   \<or> (\<exists>E. sf_Type (fs ! j) = TSlice E \<and> Kind E = KStruct)"
      have "decodeField F (global tree) False (fs ! j) (vs ! j) = (vs ! j, None)"
        using k by (auto simp: decodeField_untouched_kind decodeField_slice_of_structs)
      with g1 j len have "vs1 ! j = vs ! j" by auto
      with i j l1 show "vs' ! j = vs ! j" by simp
    qed
    have lv: "length vs' = length vs" using i l1 by simp
    have "\<exists>vs1 i. decodeFields F (global tree) False fs vs = (vs1, None)
                   \<and> i < length fs
                   \<and> decodeSection F tree (fs ! i) (vs1 ! i) = (vs' ! i, Some e)
                   \<and> (\<forall>j<i. decodeSection F tree (fs ! j) (vs1 ! j) = (vs' ! j, None))
                   \<and> (\<forall>j. i < j \<and> j < length vs \<longrightarrow>
                         vs' ! j = vs1 ! j
                         \<and> (Kind (sf_Type (fs ! j)) = KStruct
                              \<or> (\<exists>E. sf_Type (fs ! j) = TSlice E \<and> Kind E = KStruct)
                            \<longrightarrow> vs' ! j = vs ! j))"
      by (rule exI [of _ vs1], rule exI [of _ i], intro conjI; fact)
    note B = this
    show ?thesis
      by (rule exI [of _ vs'], intro conjI disjI2; (rule rv | rule lv | rule B))
  qed
qed

text \<open>
  The theorem at a destination with the fields Port and Name and a global Port that is not
  a number: decodeStruct and decode fail at field 0 and leave both fields as they were.
\<close>

theorem C9_witness:
  "length [VInt 0, VString [] :: nat govalue] = length listenerFields
   \<and> decodeStruct noFloats (RSection (global listenerTree)) False (TStruct listenerFields)
         (VStruct [VInt 0, VString []])
       = (VStruct [VInt 0, VString []], Some (typeError ''abc'' (TPtr (TInt Native))))
   \<and> (\<exists>i vs'. i < length listenerFields \<and> VStruct [VInt 0, VString []] = VStruct vs'
         \<and> decodeField noFloats (global listenerTree) False (listenerFields ! i)
               ([VInt 0, VString []] ! i)
             = ([VInt 0, VString []] ! i, Some (typeError ''abc'' (TPtr (TInt Native))))
         \<and> (\<forall>j. i \<le> j \<and> j < length [VInt 0, VString [] :: nat govalue] \<longrightarrow>
                vs' ! j = [VInt 0, VString []] ! j))
   \<and> decode noFloats listenerTree
         (Value (TPtr (TStruct listenerFields)) (VPtr (VStruct [VInt 0, VString []])))
       = (Value (TPtr (TStruct listenerFields)) (VPtr (VStruct [VInt 0, VString []])),
          Some (typeError ''abc'' (TPtr (TInt Native))))
   \<and> (\<exists>vs'. Value (TPtr (TStruct listenerFields)) (VPtr (VStruct [VInt 0, VString [] :: nat govalue]))
           = Value (TPtr (TStruct listenerFields)) (VPtr (VStruct vs'))
         \<and> length vs' = length [VInt 0, VString [] :: nat govalue])"
proof -
  have len: "length [VInt 0, VString [] :: nat govalue] = length listenerFields"
    by (simp add: input_defs)
  have a: "decodeStruct noFloats (RSection (global listenerTree)) False (TStruct listenerFields)
         (VStruct [VInt 0, VString []])
       = (VStruct [VInt 0, VString []], Some (typeError ''abc'' (TPtr (TInt Native))))"
    by (simp add: input_defs decode_simps scalar_defs lookup_defs)
  have b: "decode noFloats listenerTree
         (Value (TPtr (TStruct listenerFields)) (VPtr (VStruct [VInt 0, VString []])))
       = (Value (TPtr (TStruct listenerFields)) (VPtr (VStruct [VInt 0, VString []])),
          Some (typeError ''abc'' (TPtr (TInt Native))))"
    by (simp add: input_defs decode_simps scalar_defs lookup_defs)
  note t = C9_stops_at_first_failing_field [OF len, where F = noFloats
      and s = "global listenerTree" and ro = False and tree = listenerTree
      and e = "typeError ''abc'' (TPtr (TInt Native))"]
  from t [THEN conjunct1, THEN mp, OF a]
  have c1: "\<exists>i vs'. i < length listenerFields \<and> VStruct [VInt 0, VString []] = VStruct vs'
         \<and> decodeField noFloats (global listenerTree) False (listenerFields ! i)
               ([VInt 0, VString []] ! i)
             = ([VInt 0, VString []] ! i, Some (typeError ''abc'' (TPtr (TInt Native))))
         \<and> (\<forall>j. i \<le> j \<and> j < length [VInt 0, VString [] :: nat govalue] \<longrightarrow>
                vs' ! j = [VInt 0, VString []] ! j)"
    by blast
  from t [THEN conjunct2, THEN mp, OF b]
  have c2: "\<exists>vs'. Value (TPtr (TStruct listenerFields)) (VPtr (VStruct [VInt 0, VString [] :: nat govalue]))
           = Value (TPtr (TStruct listenerFields)) (VPtr (VStruct vs'))
         \<and> length vs' = length [VInt 0, VString [] :: nat govalue]"
    by blast
  show ?thesis
    by (intro conjI; (rule len a c1 b c2))
qed

text \<open>
  C9 as stated fails for decode: the error arises in the second loop at field 0
  (Database, whose Port is not a number), and field 1 (Name), which comes after it, has
  already been set by the first loop.
\<close>

theorem C9_counterexample:
  "decode noFloats serverTree (Value (TPtr serverT) (VPtr (VStruct [VStruct [VInt 0], VString []])))
   = (Value (TPtr serverT) (VPtr (VStruct [VStruct [VInt 0], VString ''main''])),
      Some (typeError ''abc'' (TPtr (TInt Native))))
   \<and> decodeFields noFloats (global serverTree) False
         [plainField ''Database'' (TStruct [plainField ''Port'' (TInt Native)]), plainField ''Name'' TString]
         [VStruct [VInt 0], VString []]
       = ([VStruct [VInt 0], VString ''main''], None)
   \<and> decodeSection noFloats serverTree
         (plainField ''Database'' (TStruct [plainField ''Port'' (TInt Native)])) (VStruct [VInt 0])
       = (VStruct [VInt 0], Some (typeError ''abc'' (TPtr (TInt Native))))
   \<and> VString ''main'' \<noteq> (VString [] :: nat govalue)"
  by (simp add: serverT_def serverTree_def decode_simps scalar_defs lookup_defs)

subsection \<open>C10: the field named ININame\<close>

text \<open>
  C10, as amended. decodeStruct has bound the fields before field \<open>j\<close> without error.
  When field \<open>j\<close> is a string field named ININame whose resolved name is not the
  excluding name \<open>-\<close>, it receives the name of the section, whatever properties the
  section has and whatever the tag says otherwise, provided it can be set: it is exported
  (as Go makes every field of that name) and the record was not reached through an
  unexported field; when it cannot be set decodeStruct panics and leaves it as it is. A field
  whose resolved name is \<open>-\<close> is left as it is, whatever its name and kind. When field
  \<open>j\<close> is named ININame and is of any other kind than string, decodeStruct returns
  what it returns for the same record with the field renamed, under the same resolved name:
  the declared name plays no part.
\<close>

theorem C10_origin_name:
  assumes len: "length vs = length fs" and j: "j < length fs"
    and before: "decodeStruct F (RSection s) ro (TStruct (take j fs)) (VStruct (take j vs))
                   = (VStruct ws, None)"
  shows "\<exists>vs' r. decodeStruct F (RSection s) ro (TStruct fs) (VStruct vs) = (VStruct vs', r)
      \<and> length vs' = length vs
      \<and> (sf_Name (fs ! j) = ''ININame'' \<and> sf_Type (fs ! j) = TString
           \<and> tag_name (newTag (fs ! j)) \<noteq> ''-'' \<longrightarrow>
           (if ro \<or> \<not> IsExported (fs ! j) then vs' ! j = vs ! j \<and> r = Some Panic
            else vs' ! j = VString (name s)))
      \<and> (tag_name (newTag (fs ! j)) = ''-'' \<longrightarrow> vs' ! j = vs ! j)
      \<and> (fs ! j = StructField ''ININame'' pk tg T \<and> Kind T \<noteq> KString
           \<and> tag_name (newTag (StructField ''ININame'' pk tg T))
               = tag_name (newTag (StructField n' pk tg' T)) \<longrightarrow>
           decodeStruct F (RSection s) ro (TStruct (fs[j := StructField n' pk tg' T])) (VStruct vs)
             = (VStruct vs', r))"
proof -
  from before have b: "decodeFields F s ro (take j fs) (take j vs) = (ws, None)"
    by (auto simp: decodeStruct_struct split: prod.splits)
  obtain v' r0 where step: "decodeField F s ro (fs ! j) (vs ! j) = (v', r0)"
    by (cases "decodeField F s ro (fs ! j) (vs ! j)")
  from decodeFields_step [OF len j b step] obtain vs' r where
    d: "decodeFields F s ro fs vs = (vs', r)" and lv: "length vs' = length vs"
    and vj: "vs' ! j = v'" and rr: "r0 \<noteq> None \<longrightarrow> r = r0"
    by blast
  have ds: "decodeStruct F (RSection s) ro (TStruct fs) (VStruct vs) = (VStruct vs', r)"
    using d by (simp add: decodeStruct_struct)
  have origin: "if ro \<or> \<not> IsExported (fs ! j) then vs' ! j = vs ! j \<and> r = Some Panic
            else vs' ! j = VString (name s)"
    if a: "sf_Name (fs ! j) = ''ININame'' \<and> sf_Type (fs ! j) = TString
           \<and> tag_name (newTag (fs ! j)) \<noteq> ''-''"
  proof -
    from a have "decodeField F s ro (fs ! j) (vs ! j) =
       (if ro \<or> \<not> IsExported (fs ! j) then (vs ! j, Some Panic) else (VString (name s), None))"
      by (intro decodeField_origin_name) simp_all
    with step vj rr show ?thesis by (auto split: if_splits)
  qed
  have skipped: "vs' ! j = vs ! j" if "tag_name (newTag (fs ! j)) = ''-''"
    using decodeField_skip [OF that, of F s ro "vs ! j"] step vj by simp
  have other: "decodeStruct F (RSection s) ro (TStruct (fs[j := StructField n' pk tg' T])) (VStruct vs)
             = (VStruct vs', r)"
    if a: "fs ! j = StructField ''ININame'' pk tg T \<and> Kind T \<noteq> KString
           \<and> tag_name (newTag (StructField ''ININame'' pk tg T))
               = tag_name (newTag (StructField n' pk tg' T))"
  proof -
    have "decodeFields F s ro (fs[j := StructField n' pk tg' T]) vs = decodeFields F s ro fs vs"
    proof (rule decodeFields_cong)
      show "length (fs[j := StructField n' pk tg' T]) = length fs" by simp
      show "\<forall>k<length fs. \<forall>v. decodeField F s ro (fs[j := StructField n' pk tg' T] ! k) v
              = decodeField F s ro (fs ! k) v"
      proof (intro allI impI)
        fix k v assume k: "k < length fs"
        show "decodeField F s ro (fs[j := StructField n' pk tg' T] ! k) v
              = decodeField F s ro (fs ! k) v"
        proof (cases "k = j")
          case True
          with a k decodeField_other_kind [of T "''ININame''" pk tg n' tg' F s ro v]
          show ?thesis by simp
        next
          case False
          with k show ?thesis by simp
        qed
      qed
    qed
    with d show ?thesis by (simp add: decodeStruct_struct)
  qed
  show ?thesis
    using ds lv origin skipped other by (intro exI [of _ vs'] exI [of _ r]) blast
qed

text \<open>
  The theorem at a record with an integer Port and a string field ININame tagged
  \<open>origin\<close>, in a section that has properties named ININame and origin: the field
  receives the name of the section; and at an integer field ININame tagged Port, which is
  decoded as a field Port is.
\<close>

theorem C10_witness:
  "length [VInt 0, VString [] :: nat govalue] = length originFields
   \<and> 1 < length originFields
   \<and> decodeStruct noFloats (RSection originSection) False (TStruct (take 1 originFields))
         (VStruct (take 1 [VInt 0, VString []]))
       = (VStruct [VInt 143], None)
   \<and> sf_Name (originFields ! 1) = ''ININame'' \<and> sf_Type (originFields ! 1) = TString
   \<and> tag_name (newTag (originFields ! 1)) \<noteq> ''-''
   \<and> \<not> (False \<or> \<not> IsExported (originFields ! 1))
   \<and> map_of (props originSection) ''ININame'' \<noteq> None
   \<and> map_of (props originSection) (tag_name (newTag (originFields ! 1))) \<noteq> None
   \<and> decodeStruct noFloats (RSection originSection) False (TStruct originFields)
         (VStruct [VInt 0, VString []])
       = (VStruct [VInt 143, VString ''Database''], None)
   \<and> [VInt 143, VString ''Database''] ! 1 = (VString (name originSection) :: nat govalue)
   \<and> length [VInt 0 :: nat govalue] = length [countField]
   \<and> 0 < length [countField]
   \<and> decodeStruct noFloats (RSection originSection) False (TStruct (take 0 [countField]))
         (VStruct (take 0 [VInt 0]))
       = (VStruct [], None)
   \<and> [countField] ! 0 = StructField ''ININame'' [] (StructTag (Some ''Port'') False) (TInt Native)
   \<and> Kind (TInt Native) \<noteq> KString
   \<and> tag_name (newTag (StructField ''ININame'' [] (StructTag (Some ''Port'') False) (TInt Native)))
       = tag_name (newTag (StructField ''Port'' [] (StructTag None False) (TInt Native)))
   \<and> decodeStruct noFloats (RSection originSection) False (TStruct [countField]) (VStruct [VInt 0])
       = (VStruct [VInt 143], None)
   \<and> decodeStruct noFloats (RSection originSection) False
         (TStruct ([countField][0 := StructField ''Port'' [] (StructTag None False) (TInt Native)]))
         (VStruct [VInt 0])
       = (VStruct [VInt 143], None)"
proof -
  have len: "length [VInt 0, VString [] :: nat govalue] = length originFields"
    and j: "1 < length originFields"
    by (simp_all add: origin_defs)
  have before: "decodeStruct noFloats (RSection originSection) False (TStruct (take 1 originFields))
         (VStruct (take 1 [VInt 0, VString []]))
       = (VStruct [VInt 143], None)"
    by (simp add: origin_defs input_defs decode_simps scalar_defs lookup_defs)
  have a: "sf_Name (originFields ! 1) = ''ININame'' \<and> sf_Type (originFields ! 1) = TString
      \<and> tag_name (newTag (originFields ! 1)) \<noteq> ''-''"
    by (simp add: origin_defs input_defs lookup_defs)
  have ex: "\<not> (False \<or> \<not> IsExported (originFields ! 1))"
    by (simp add: origin_defs input_defs lookup_defs)
  have p1: "map_of (props originSection) ''ININame'' \<noteq> None"
    and p2: "map_of (props originSection) (tag_name (newTag (originFields ! 1))) \<noteq> None"
    by (simp_all add: origin_defs input_defs lookup_defs)
  have d: "decodeStruct noFloats (RSection originSection) False (TStruct originFields)
         (VStruct [VInt 0, VString []])
       = (VStruct [VInt 143, VString ''Database''], None)"
    by (simp add: origin_defs input_defs decode_simps scalar_defs lookup_defs)
  from C10_origin_name [OF len j before] d a ex
  have c1: "[VInt 143, VString ''Database''] ! 1 = (VString (name originSection) :: nat govalue)"
    by auto
  have len2: "length [VInt 0 :: nat govalue] = length [countField]"
    and j2: "0 < length [countField]"
    by simp_all
  have before2: "decodeStruct noFloats (RSection originSection) False (TStruct (take 0 [countField]))
         (VStruct (take 0 [VInt 0]))
       = (VStruct [], None)"
    by (simp add: decode_simps)
  have b: "[countField] ! 0 = StructField ''ININame'' [] (StructTag (Some ''Port'') False) (TInt Native)"
    "Kind (TInt Native) \<noteq> KString"
    "tag_name (newTag (StructField ''ININame'' [] (StructTag (Some ''Port'') False) (TInt Native)))
       = tag_name (newTag (StructField ''Port'' [] (StructTag None False) (TInt Native)))"
    by (simp_all add: origin_defs lookup_defs)
  have d2: "decodeStruct noFloats (RSection originSection) False (TStruct [countField])
         (VStruct [VInt 0]) = (VStruct [VInt 143], None)"
    by (simp add: origin_defs input_defs decode_simps scalar_defs lookup_defs)
  from C10_origin_name [OF len2 j2 before2, where pk = "[]"
      and tg = "StructTag (Some ''Port'') False" and T = "TInt Native" and n' = "''Port''"
      and tg' = "StructTag None False"] d2 b
  have c2: "decodeStruct noFloats (RSection originSection) False
         (TStruct ([countField][0 := StructField ''Port'' [] (StructTag None False) (TInt Native)]))
         (VStruct [VInt 0])
       = (VStruct [VInt 143], None)"
    by auto
  show ?thesis
    by (intro conjI; (rule len j before a [THEN conjunct1] a [THEN conjunct2, THEN conjunct1]
          a [THEN conjunct2, THEN conjunct2] ex p1 p2 d c1 len2 j2 before2 b d2 c2))
qed

text \<open>
  C10 as stated fails: a string field ININame tagged \<open>-\<close> is skipped before its kind
  is looked at; in a nested record that is not exported the assignment panics; and after a
  failing field the origin-name field is not reached. In each case the field does not
  receive the name of the section.
\<close>

theorem C10_counterexample:
  "decodeStruct noFloats (RSection \<lparr>name = ''Database'', props = []\<rparr>) False
     (TStruct [excludedOrigin]) (VStruct [VString []])
   = (VStruct [VString []], None)
   \<and> decode noFloats
       \<lparr>global = \<lparr>name = [], props = []\<rparr>, sections = [\<lparr>name = ''database'', props = []\<rparr>]\<rparr>
       (Value (TPtr (TStruct [hiddenRecord])) (VPtr (VStruct [VStruct [VString []]])))
     = (Value (TPtr (TStruct [hiddenRecord])) (VPtr (VStruct [VStruct [VString []]])), Some Panic)
   \<and> decodeStruct noFloats
       (RSection \<lparr>name = ''Database'', props = [plainProperty ''Port'' [''abc'']]\<rparr>) False
       (TStruct [plainField ''Port'' (TInt Native), plainField ''ININame'' TString])
       (VStruct [VInt 0, VString []])
     = (VStruct [VInt 0, VString []], Some (typeError ''abc'' (TPtr (TInt Native))))
   \<and> (VString [] :: nat govalue) \<noteq> VString ''Database''"
  by (simp add: origin_defs decode_simps scalar_defs lookup_defs)

end
